theory Spec2Isabelle
  imports Main "HOL-Library.Sublist"
begin

section \<open>Raymote: the device session manager of \<open>index.mjs\<close>\<close>

text \<open>
  The program is a single event-driven Node.js process. Its module-level variables
  (\<open>receiverPort\<close>, \<open>transmitterPort\<close>, \<open>connectedClients\<close>) and the objects they refer to
  are modelled as one explicit state; every function and every event handler of the source
  is a function from a state to a result and a new state. What the libraries do
  (the operating system's port list, whether a port opens, what the transport answers to
  a write, the wall clock) is an argument of the handler that observes it.

  JavaScript strings are modelled as HOL strings (lists of characters).
\<close>

subsection \<open>Strings\<close>

text \<open>\<open>String.prototype.includes\<close>: the needle occurs as a contiguous run.\<close>

fun starts_with :: "string \<Rightarrow> string \<Rightarrow> bool" where
  "starts_with hay [] = True"
| "starts_with [] (n # ns) = False"
| "starts_with (h # hs) (n # ns) = (h = n \<and> starts_with hs ns)"

fun includes_str :: "string \<Rightarrow> string \<Rightarrow> bool" where
  "includes_str [] needle = (needle = [])"
| "includes_str (h # hs) needle = (starts_with (h # hs) needle \<or> includes_str hs needle)"

subsection \<open>Port registry: \<open>listPorts\<close>\<close>

text \<open>
  An entry of \<open>SerialPort.list()\<close>: the path, and the manufacturer, which the operating
  system may not report (\<open>undefined\<close>).
\<close>

record port_info =
  pi_path :: string
  pi_manufacturer :: "string option"

record port_descriptor =
  path :: string
  manufacturer :: string

text \<open>The filter callback: \<open>port.path.includes('ttyUSB') || port.path.includes('ttyACM')\<close>.\<close>

definition is_usb_serial :: "port_info \<Rightarrow> bool" where
  "is_usb_serial port = (includes_str (pi_path port) ''ttyUSB'' \<or> includes_str (pi_path port) ''ttyACM'')"

text \<open>
  \<open>port.manufacturer || 'Unknown'\<close>: the right operand is taken when the left one is falsy,
  which for a string or \<open>undefined\<close> means absent or empty.
\<close>

definition manufacturer_or_unknown :: "string option \<Rightarrow> string" where
  "manufacturer_or_unknown m = (case m of None \<Rightarrow> ''Unknown'' | Some v \<Rightarrow> if v = [] then ''Unknown'' else v)"

definition describe_port :: "port_info \<Rightarrow> port_descriptor" where
  "describe_port port =
     \<lparr>path = pi_path port, manufacturer = manufacturer_or_unknown (pi_manufacturer port)\<rparr>"

text \<open>
  \<open>listPorts\<close> awaits \<open>SerialPort.list()\<close>; a rejection of that promise propagates to the
  caller unchanged (there is no \<open>try\<close> in \<open>listPorts\<close>). The enumeration's outcome is the
  argument: \<open>Inl\<close> the error message, \<open>Inr\<close> the list in the order the system gave it.
\<close>

definition listPorts :: "string + port_info list \<Rightarrow> string + port_descriptor list" where
  "listPorts enumerated =
     (case enumerated of
        Inl err \<Rightarrow> Inl err
      | Inr ports \<Rightarrow> Inr (map describe_port (filter is_usb_serial ports)))"

subsection \<open>JSON text\<close>

text \<open>
  \<open>JSON.stringify\<close> of a string: the string between double quotes, with the double quote
  and the backslash escaped by a backslash, the control characters below \<open>0x20\<close> written
  as \<open>\b \t \n \f \r\<close> or as \<open>\u00XX\<close> with lowercase hexadecimal digits, and every other
  character unchanged.
\<close>

definition dquote :: char where
  "dquote = CHR 0x22"

definition backslash :: char where
  "backslash = CHR 0x5C"

definition newline :: char where
  "newline = CHR 0x0A"

definition hex_digit :: "nat \<Rightarrow> char" where
  "hex_digit n = ''0123456789abcdef'' ! (n mod 16)"

definition json_escape :: "char \<Rightarrow> string" where
  "json_escape c =
     (if c = dquote then [backslash, dquote]
      else if c = backslash then [backslash, backslash]
      else if c = CHR 0x08 then [backslash, CHR ''b'']
      else if c = CHR 0x09 then [backslash, CHR ''t'']
      else if c = CHR 0x0A then [backslash, CHR ''n'']
      else if c = CHR 0x0C then [backslash, CHR ''f'']
      else if c = CHR 0x0D then [backslash, CHR ''r'']
      else if (of_char c :: nat) < 32
        then [backslash, CHR ''u'', CHR ''0'', CHR ''0'',
              hex_digit (of_char c div 16), hex_digit (of_char c mod 16)]
      else [c])"

definition json_string :: "string \<Rightarrow> string" where
  "json_string str = [dquote] @ concat (map json_escape str) @ [dquote]"

text \<open>
  A JavaScript number that is a safe integer (below \<open>2^53\<close> in magnitude), converted to a
  string by a template literal: its decimal digits, with a minus sign when negative. Only
  these integers are held exactly by a JavaScript number and printed digit for digit; a
  larger one is printed with the shortest digits that read back to the same number, which
  \<open>number_to_string\<close> does not model. The statements below that use it are about safe
  integers.
\<close>

fun nat_to_string :: "nat \<Rightarrow> string" where
  "nat_to_string n =
     (if n < 10 then [''0123456789'' ! n]
      else nat_to_string (n div 10) @ [''0123456789'' ! (n mod 10)])"

declare nat_to_string.simps [simp del]

definition number_to_string :: "int \<Rightarrow> string" where
  "number_to_string i = (if i < 0 then CHR ''-'' # nat_to_string (nat (- i)) else nat_to_string (nat i))"

text \<open>The number a reader of decimal digits gets (the device's side of the transmit line).\<close>

definition decimal_value :: "string \<Rightarrow> nat" where
  "decimal_value digits = foldl (\<lambda>acc c. 10 * acc + (of_char c - 48)) 0 digits"

subsection \<open>The state of the process\<close>

text \<open>
  Every \<open>SerialPort\<close> object the program constructs is an entry of \<open>serial_ports\<close>; its index
  is its identity, so that \<open>receiverPort\<close> and \<open>transmitterPort\<close> are an index or \<open>null\<close>.
  \<open>sp_role\<close> records which of the two connect functions constructed the object, and
  \<open>sp_written\<close> the strings handed to its \<open>write\<close>, oldest first. A port is \<open>Opening\<close> from
  \<open>port.open()\<close> until the library emits \<open>open\<close> or \<open>error\<close>; \<open>isOpen\<close> is true exactly in
  \<open>Opened\<close>.
\<close>

datatype role = Receiver | Transmitter

datatype port_status = Opening | Opened | Shut

record serial_port =
  sp_path :: string
  sp_role :: role
  sp_status :: port_status
  sp_written :: "string list"

text \<open>
  The response object of one \<open>/api/events\<close> request: whether its socket still takes data,
  the frames that reached it (oldest first), and the period in milliseconds of its
  \<open>keepAlive\<close> interval while that timer runs.
\<close>

record subscriber =
  sub_alive :: bool
  sub_frames :: "string list"
  sub_keepalive :: "nat option"

text \<open>
  \<open>error_log\<close> holds the lines written by \<open>console.error\<close>, oldest first. The lines of
  \<open>console.log\<close> are not modelled.
\<close>

record state =
  receiverPort :: "nat option"
  transmitterPort :: "nat option"
  connectedClients :: "nat list"
  serial_ports :: "serial_port list"
  responses :: "subscriber list"
  error_log :: "string list"

definition initial_state :: state where
  "initial_state =
     \<lparr>receiverPort = None, transmitterPort = None, connectedClients = [],
      serial_ports = [], responses = [], error_log = []\<rparr>"

definition isOpen :: "state \<Rightarrow> nat \<Rightarrow> bool" where
  "isOpen s h = (h < length (serial_ports s) \<and> sp_status (serial_ports s ! h) = Opened)"

definition set_status :: "nat \<Rightarrow> port_status \<Rightarrow> state \<Rightarrow> state" where
  "set_status h st s =
     s\<lparr>serial_ports := (serial_ports s)[h := (serial_ports s ! h)\<lparr>sp_status := st\<rparr>]\<rparr>"

text \<open>\<open>port.close()\<close>: \<open>isOpen\<close> is false from the call on.\<close>

definition close_port :: "nat \<Rightarrow> state \<Rightarrow> state" where
  "close_port h s = set_status h Shut s"

text \<open>\<open>new SerialPort({path, baudRate: 9600, autoOpen: false})\<close> followed by \<open>port.open()\<close>.\<close>

definition new_port :: "role \<Rightarrow> string \<Rightarrow> state \<Rightarrow> nat \<times> state" where
  "new_port r p s =
     (length (serial_ports s),
      s\<lparr>serial_ports := serial_ports s @
           [\<lparr>sp_path = p, sp_role = r, sp_status = Opening, sp_written = []\<rparr>]\<rparr>)"

text \<open>\<open>console.error\<close> with one string.\<close>

definition console_error :: "string \<Rightarrow> state \<Rightarrow> state" where
  "console_error line s = s\<lparr>error_log := error_log s @ [line]\<rparr>"

text \<open>
  \<open>res.write(frame)\<close> on the response of a subscriber. Writing to a response whose socket
  is gone delivers nothing and does not throw (the failure is reported to the callback,
  which the program does not pass).
\<close>

definition res_write :: "string \<Rightarrow> nat \<Rightarrow> state \<Rightarrow> state" where
  "res_write frame res s =
     (if res < length (responses s) \<and> sub_alive (responses s ! res)
      then s\<lparr>responses := (responses s)
                [res := (responses s ! res)\<lparr>sub_frames := sub_frames (responses s ! res) @ [frame]\<rparr>]\<rparr>
      else s)"

subsection \<open>Connecting: \<open>connectToReceiver\<close>, \<open>connectToTransmitter\<close>\<close>

text \<open>
  A JavaScript \<open>Error\<close>, by its message. The value a connect function or \<open>sendIRCommand\<close>
  resolves with: \<open>{success: true, disconnected: true}\<close> or \<open>{success: true}\<close>, where the
  absent \<open>disconnected\<close> is \<open>False\<close>.
\<close>

datatype js_error = Error string

record connect_result =
  success :: bool
  disconnected :: bool

text \<open>
  The promise a connect function returns is settled at once for a disconnect request, and
  otherwise stays pending until the port it constructed emits \<open>open\<close> or \<open>error\<close>.
\<close>

datatype connect_promise = Resolved connect_result | Pending nat

text \<open>\<open>!portPath\<close> for an absent (\<open>null\<close>, \<open>undefined\<close>) or a string path.\<close>

definition falsy :: "string option \<Rightarrow> bool" where
  "falsy portPath = (case portPath of None \<Rightarrow> True | Some p \<Rightarrow> p = [])"

definition connectToReceiver :: "string option \<Rightarrow> state \<Rightarrow> connect_promise \<times> state" where
  "connectToReceiver portPath s =
     (let s1 = (case receiverPort s of
                  None \<Rightarrow> s
                | Some h \<Rightarrow> if isOpen s h then close_port h s else s)
      in case portPath of
           None \<Rightarrow> (Resolved \<lparr>success = True, disconnected = True\<rparr>, s1\<lparr>receiverPort := None\<rparr>)
         | Some p \<Rightarrow>
             if p = [] then (Resolved \<lparr>success = True, disconnected = True\<rparr>, s1\<lparr>receiverPort := None\<rparr>)
             else (let (h, s2) = new_port Receiver p s1 in (Pending h, s2)))"

definition connectToTransmitter :: "string option \<Rightarrow> state \<Rightarrow> connect_promise \<times> state" where
  "connectToTransmitter portPath s =
     (let s1 = (case transmitterPort s of
                  None \<Rightarrow> s
                | Some h \<Rightarrow> if isOpen s h then close_port h s else s)
      in case portPath of
           None \<Rightarrow> (Resolved \<lparr>success = True, disconnected = True\<rparr>, s1\<lparr>transmitterPort := None\<rparr>)
         | Some p \<Rightarrow>
             if p = [] then (Resolved \<lparr>success = True, disconnected = True\<rparr>, s1\<lparr>transmitterPort := None\<rparr>)
             else (let (h, s2) = new_port Transmitter p s1 in (Pending h, s2)))"

text \<open>
  The \<open>open\<close> handlers: the module variable takes the port, and the promise resolves with
  \<open>{success: true}\<close>. The \<open>error\<close> handlers: the message is logged and the promise rejects
  with the error.
\<close>

definition receiver_on_open :: "nat \<Rightarrow> state \<Rightarrow> connect_result \<times> state" where
  "receiver_on_open h s = (\<lparr>success = True, disconnected = False\<rparr>, s\<lparr>receiverPort := Some h\<rparr>)"

definition transmitter_on_open :: "nat \<Rightarrow> state \<Rightarrow> connect_result \<times> state" where
  "transmitter_on_open h s = (\<lparr>success = True, disconnected = False\<rparr>, s\<lparr>transmitterPort := Some h\<rparr>)"

definition receiver_on_error :: "string \<Rightarrow> state \<Rightarrow> js_error \<times> state" where
  "receiver_on_error msg s = (Error msg, console_error (''Receiver port error: '' @ msg) s)"

definition transmitter_on_error :: "string \<Rightarrow> state \<Rightarrow> js_error \<times> state" where
  "transmitter_on_error msg s = (Error msg, console_error (''Transmitter port error: '' @ msg) s)"

text \<open>
  What the library does to a port that is \<open>Opening\<close>: either the port is open and \<open>open\<close> is
  emitted, or the port stays shut and \<open>error\<close> is emitted. The handler that runs is the one
  the constructing function attached. \<open>port_fails\<close> is also what happens to an open port on
  which the transport reports an error: the port is shut and its \<open>error\<close> listener runs
  (its \<open>reject\<close> then has no effect, the promise of the connect call being settled).
\<close>

definition port_opens :: "nat \<Rightarrow> state \<Rightarrow> connect_result \<times> state" where
  "port_opens h s =
     (case sp_role (serial_ports s ! h) of
        Receiver \<Rightarrow> receiver_on_open h (set_status h Opened s)
      | Transmitter \<Rightarrow> transmitter_on_open h (set_status h Opened s))"

definition port_fails :: "nat \<Rightarrow> string \<Rightarrow> state \<Rightarrow> js_error \<times> state" where
  "port_fails h msg s =
     (case sp_role (serial_ports s ! h) of
        Receiver \<Rightarrow> receiver_on_error msg (set_status h Shut s)
      | Transmitter \<Rightarrow> transmitter_on_error msg (set_status h Shut s))"

subsection \<open>Receiving: the parser's \<open>data\<close> handler\<close>

text \<open>
  The object built for a line that passes the filter: the wall clock's
  \<open>toLocaleTimeString()\<close> and the line.
\<close>

record message =
  timestamp :: string
  data :: string

text \<open>\<open>JSON.stringify(message)\<close>: the two properties in the order they were written.\<close>

definition json_message :: "message \<Rightarrow> string" where
  "json_message m =
     ''{'' @ json_string ''timestamp'' @ '':'' @ json_string (timestamp m) @ '','' @
     json_string ''data'' @ '':'' @ json_string (data m) @ ''}''"

definition sse_frame :: "message \<Rightarrow> string" where
  "sse_frame m = ''data: '' @ json_message m @ [newline, newline]"

definition has_marker :: "string \<Rightarrow> bool" where
  "has_marker line = (includes_str line ''Decoded'' \<or> includes_str line ''Ready to receive'')"

text \<open>
  The handler gets the line; \<open>now\<close> is what the clock answers. \<open>forEach\<close> writes the frame
  to the clients in the order of \<open>connectedClients\<close>. The first component is the message
  that was broadcast, if any.
\<close>

definition parser_on_data :: "string \<Rightarrow> string \<Rightarrow> state \<Rightarrow> message option \<times> state" where
  "parser_on_data now line s =
     (if has_marker line
      then (let m = \<lparr>timestamp = now, data = line\<rparr>
            in (Some m, fold (res_write (sse_frame m)) (connectedClients s) s))
      else (None, s))"


subsection \<open>Subscribers: the \<open>/api/events\<close> route\<close>

definition keepalive_frame :: string where
  "keepalive_frame = '': keepalive'' @ [newline, newline]"

text \<open>
  A request for the event stream: a timer with a period of 30000 milliseconds is started
  for this response, and the response is pushed onto \<open>connectedClients\<close>. The result is the
  identity of the response.
\<close>

definition api_events :: "state \<Rightarrow> nat \<times> state" where
  "api_events s =
     (let res = length (responses s)
      in (res, s\<lparr>responses := responses s @
                    [\<lparr>sub_alive = True, sub_frames = [], sub_keepalive = Some 30000\<rparr>],
                connectedClients := connectedClients s @ [res]\<rparr>))"

text \<open>The timer's callback.\<close>

definition keepAlive :: "nat \<Rightarrow> state \<Rightarrow> state" where
  "keepAlive res s = res_write keepalive_frame res s"

text \<open>The request's \<open>close\<close> handler: the timer is cleared and the response filtered out.\<close>

definition req_on_close :: "nat \<Rightarrow> state \<Rightarrow> state" where
  "req_on_close res s =
     s\<lparr>responses := (responses s)[res := (responses s ! res)\<lparr>sub_keepalive := None\<rparr>],
       connectedClients := filter (\<lambda>client. client \<noteq> res) (connectedClients s)\<rparr>"

subsection \<open>Transmitting: \<open>sendIRCommand\<close>\<close>

definition port_write :: "nat \<Rightarrow> string \<Rightarrow> state \<Rightarrow> state" where
  "port_write h command s =
     s\<lparr>serial_ports := (serial_ports s)
         [h := (serial_ports s ! h)\<lparr>sp_written := sp_written (serial_ports s ! h) @ [command]\<rparr>]\<rparr>"

text \<open>
  \<open>ack\<close> is what the transport passes to the callback of \<open>write\<close>: nothing, or an error.
  The promise settles with it. On an error the library also shuts the port and emits
  \<open>error\<close> on it, so the listener attached by the connect function logs the message.
\<close>

definition sendIRCommand ::
    "string \<Rightarrow> int \<Rightarrow> string \<Rightarrow> string option \<Rightarrow> state \<Rightarrow> (js_error + connect_result) \<times> state" where
  "sendIRCommand protocol bits code ack s =
     (case transmitterPort s of
        None \<Rightarrow> (Inl (Error ''Transmitter not connected''), s)
      | Some h \<Rightarrow>
          if \<not> isOpen s h then (Inl (Error ''Transmitter not connected''), s)
          else (let command = protocol @ '','' @ number_to_string bits @ '','' @ code @ [newline];
                    s1 = port_write h command s
                in (case ack of
                      None \<Rightarrow> (Inr \<lparr>success = True, disconnected = False\<rparr>, s1)
                    | Some err \<Rightarrow> (Inl (Error err), snd (port_fails h err s1)))))"

text \<open>The \<open>/api/send\<close> route, after the body is parsed: status code and body of the answer.\<close>

definition api_send ::
    "string \<Rightarrow> int \<Rightarrow> string \<Rightarrow> string option \<Rightarrow> state \<Rightarrow> (nat \<times> string) \<times> state" where
  "api_send protocol bits code ack s =
     (case sendIRCommand protocol bits code ack s of
        (Inr r, s1) \<Rightarrow> ((200, ''{'' @ json_string ''success'' @ '':true}''), s1)
      | (Inl (Error msg), s1) \<Rightarrow>
          ((500, ''{'' @ json_string ''error'' @ '':'' @ json_string msg @ ''}''), s1))"

subsection \<open>Startup: the callback of \<open>server.listen\<close>\<close>

text \<open>
  \<open>await connectToReceiver(p)\<close> where nothing else runs in between: the call, and then the
  library's answer for the port the call constructed. \<open>dev\<close> gives that answer for a path:
  \<open>None\<close> when the device opens, the error message when it does not.
\<close>

definition await_connectToReceiver ::
    "(string \<Rightarrow> string option) \<Rightarrow> string option \<Rightarrow> state \<Rightarrow> (js_error + connect_result) \<times> state" where
  "await_connectToReceiver dev portPath s =
     (case connectToReceiver portPath s of
        (Resolved r, s1) \<Rightarrow> (Inr r, s1)
      | (Pending h, s1) \<Rightarrow>
          (case dev (sp_path (serial_ports s1 ! h)) of
             None \<Rightarrow> (let (r, s2) = port_opens h s1 in (Inr r, s2))
           | Some msg \<Rightarrow> (let (e, s2) = port_fails h msg s1 in (Inl e, s2))))"

definition await_connectToTransmitter ::
    "(string \<Rightarrow> string option) \<Rightarrow> string option \<Rightarrow> state \<Rightarrow> (js_error + connect_result) \<times> state" where
  "await_connectToTransmitter dev portPath s =
     (case connectToTransmitter portPath s of
        (Resolved r, s1) \<Rightarrow> (Inr r, s1)
      | (Pending h, s1) \<Rightarrow>
          (case dev (sp_path (serial_ports s1 ! h)) of
             None \<Rightarrow> (let (r, s2) = port_opens h s1 in (Inr r, s2))
           | Some msg \<Rightarrow> (let (e, s2) = port_fails h msg s1 in (Inl e, s2))))"

text \<open>The object \<open>loadConfig\<close> returns; a path is \<open>null\<close> when none is saved.\<close>

record config =
  cfg_receiverPort :: "string option"
  cfg_transmitterPort :: "string option"

text \<open>
  The auto-reconnect part of the callback. Each \<open>await\<close> sits in its own \<open>try\<close>, whose
  \<open>catch\<close> logs the message; the result says which roles were attempted, in order.
\<close>

definition reconnect_receiver :: "(string \<Rightarrow> string option) \<Rightarrow> config \<Rightarrow> state \<Rightarrow> role list \<times> state" where
  "reconnect_receiver dev cfg s =
     (if \<not> falsy (cfg_receiverPort cfg)
      then (case await_connectToReceiver dev (cfg_receiverPort cfg) s of
              (Inr r, s1) \<Rightarrow> ([Receiver], s1)
            | (Inl (Error msg), s1) \<Rightarrow>
                ([Receiver], console_error (''Failed to reconnect receiver: '' @ msg) s1))
      else ([], s))"

definition reconnect_transmitter :: "(string \<Rightarrow> string option) \<Rightarrow> config \<Rightarrow> state \<Rightarrow> role list \<times> state" where
  "reconnect_transmitter dev cfg s =
     (if \<not> falsy (cfg_transmitterPort cfg)
      then (case await_connectToTransmitter dev (cfg_transmitterPort cfg) s of
              (Inr r, s1) \<Rightarrow> ([Transmitter], s1)
            | (Inl (Error msg), s1) \<Rightarrow>
                ([Transmitter], console_error (''Failed to reconnect transmitter: '' @ msg) s1))
      else ([], s))"

definition bootstrap :: "(string \<Rightarrow> string option) \<Rightarrow> config \<Rightarrow> state \<Rightarrow> role list \<times> state" where
  "bootstrap dev cfg s =
     (let (a, s1) = reconnect_receiver dev cfg s;
          (b, s2) = reconnect_transmitter dev cfg s1
      in (a @ b, s2))"

subsection \<open>The event loop\<close>

text \<open>
  The process runs one handler at a time, to its end. What can happen next is a call of
  one of the program's functions by a request, or something the environment does: a port
  that was opening opens or fails, an open port is lost (unplugged), a line arrives on an
  open receiver port, a timer fires, a subscriber's socket goes away, and then its request
  emits \<open>close\<close>. A promise that is pending stays so across other events.
\<close>

datatype event =
    ConnectReceiver "string option"
  | ConnectTransmitter "string option"
  | PortOpens nat
  | PortFails nat string
  | PortLost nat
  | LineRead nat string string
  | SendCommand string int string "string option"
  | EventsRequest
  | KeepAliveTick nat
  | SocketGone nat
  | RequestClose nat

fun enabled :: "event \<Rightarrow> state \<Rightarrow> bool" where
  "enabled (ConnectReceiver p) s = True"
| "enabled (ConnectTransmitter p) s = True"
| "enabled (PortOpens h) s = (h < length (serial_ports s) \<and> sp_status (serial_ports s ! h) = Opening)"
| "enabled (PortFails h msg) s = (h < length (serial_ports s) \<and> sp_status (serial_ports s ! h) = Opening)"
| "enabled (PortLost h) s = isOpen s h"
| "enabled (LineRead h now line) s = (isOpen s h \<and> sp_role (serial_ports s ! h) = Receiver)"
| "enabled (SendCommand protocol bits code ack) s = True"
| "enabled EventsRequest s = True"
| "enabled (KeepAliveTick res) s = (res < length (responses s) \<and> sub_keepalive (responses s ! res) \<noteq> None)"
| "enabled (SocketGone res) s = (res < length (responses s) \<and> sub_alive (responses s ! res))"
| "enabled (RequestClose res) s =
     (res < length (responses s) \<and> \<not> sub_alive (responses s ! res) \<and> sub_keepalive (responses s ! res) \<noteq> None)"

fun fire :: "event \<Rightarrow> state \<Rightarrow> state" where
  "fire (ConnectReceiver p) s = snd (connectToReceiver p s)"
| "fire (ConnectTransmitter p) s = snd (connectToTransmitter p s)"
| "fire (PortOpens h) s = snd (port_opens h s)"
| "fire (PortFails h msg) s = snd (port_fails h msg s)"
| "fire (PortLost h) s = set_status h Shut s"
| "fire (LineRead h now line) s = snd (parser_on_data now line s)"
| "fire (SendCommand protocol bits code ack) s = snd (sendIRCommand protocol bits code ack s)"
| "fire EventsRequest s = snd (api_events s)"
| "fire (KeepAliveTick res) s = keepAlive res s"
| "fire (SocketGone res) s = s\<lparr>responses := (responses s)[res := (responses s ! res)\<lparr>sub_alive := False\<rparr>]\<rparr>"
| "fire (RequestClose res) s = req_on_close res s"

text \<open>A run of events from a state; \<open>None\<close> when an event in it cannot happen where it stands.\<close>

fun run :: "event list \<Rightarrow> state \<Rightarrow> state option" where
  "run [] s = Some s"
| "run (e # es) s = (if enabled e s then run es (fire e s) else None)"

inductive reachable :: "state \<Rightarrow> bool" where
  start: "reachable initial_state"
| step: "reachable s \<Longrightarrow> enabled e s \<Longrightarrow> reachable (fire e s)"

text \<open>The ports of a role that are open, by identity.\<close>

definition open_ports :: "role \<Rightarrow> state \<Rightarrow> nat list" where
  "open_ports r s =
     filter (\<lambda>h. sp_role (serial_ports s ! h) = r \<and> sp_status (serial_ports s ! h) = Opened)
       [0..<length (serial_ports s)]"

definition handle_of :: "role \<Rightarrow> state \<Rightarrow> nat option" where
  "handle_of r s = (case r of Receiver \<Rightarrow> receiverPort s | Transmitter \<Rightarrow> transmitterPort s)"

text \<open>
  Every open port is the one its role's variable refers to: no open port is out of the
  program's reach.
\<close>

definition tracked :: "state \<Rightarrow> bool" where
  "tracked s =
     (\<forall>h<length (serial_ports s).
        sp_status (serial_ports s ! h) = Opened \<longrightarrow> handle_of (sp_role (serial_ports s ! h)) s = Some h)"

text \<open>The same, and no port is still opening: no connect call is in flight.\<close>

definition settled :: "state \<Rightarrow> bool" where
  "settled s =
     (\<forall>h<length (serial_ports s).
        sp_status (serial_ports s ! h) \<noteq> Opening \<and>
        (sp_status (serial_ports s ! h) = Opened \<longrightarrow> handle_of (sp_role (serial_ports s ! h)) s = Some h))"

text \<open>The dispatch of the \<open>/api/connect\<close> route on the request's \<open>type\<close>.\<close>

definition connect :: "role \<Rightarrow> string option \<Rightarrow> state \<Rightarrow> connect_promise \<times> state" where
  "connect r portPath s =
     (case r of Receiver \<Rightarrow> connectToReceiver portPath s | Transmitter \<Rightarrow> connectToTransmitter portPath s)"

definition other :: "role \<Rightarrow> role" where
  "other r = (case r of Receiver \<Rightarrow> Transmitter | Transmitter \<Rightarrow> Receiver)"

text \<open>
  The state after the first statement of a connect function: the port the role's variable
  refers to is closed if it is open.
\<close>

definition close_existing :: "role \<Rightarrow> state \<Rightarrow> state" where
  "close_existing r s =
     (case handle_of r s of None \<Rightarrow> s | Some h \<Rightarrow> if isOpen s h then close_port h s else s)"

text \<open>
  A state used in the examples below: the receiver is connected to \<open>/dev/ttyUSB0\<close>, the
  transmitter to \<open>/dev/ttyACM0\<close>, and of two subscribers the first has lost its socket while
  its request has not yet emitted \<open>close\<close>.
\<close>

definition example_state :: state where
  "example_state =
     \<lparr>receiverPort = Some 0, transmitterPort = Some 1, connectedClients = [0, 1],
      serial_ports =
        [\<lparr>sp_path = ''/dev/ttyUSB0'', sp_role = Receiver, sp_status = Opened, sp_written = []\<rparr>,
         \<lparr>sp_path = ''/dev/ttyACM0'', sp_role = Transmitter, sp_status = Opened, sp_written = []\<rparr>],
      responses =
        [\<lparr>sub_alive = False, sub_frames = [], sub_keepalive = Some 30000\<rparr>,
         \<lparr>sub_alive = True, sub_frames = [], sub_keepalive = Some 30000\<rparr>],
      error_log = []\<rparr>"

subsection \<open>Reading the event stream\<close>

text \<open>
  The other end of the event stream: a reader of JSON string literals (escapes as in
  RFC 8259, the \<open>\u\<close> form for the code points below 256 that a \<open>char\<close> holds) and of the
  object a frame carries. It is what the statements about the frame format are measured
  against; the program does not contain it.
\<close>

definition hex_value :: "char \<Rightarrow> nat option" where
  "hex_value c =
     (let n = (of_char c :: nat)
      in if 48 \<le> n \<and> n \<le> 57 then Some (n - 48)
         else if 97 \<le> n \<and> n \<le> 102 then Some (n - 87)
         else if 65 \<le> n \<and> n \<le> 70 then Some (n - 55)
         else None)"

definition unescape :: "char \<Rightarrow> char option" where
  "unescape e =
     (if e = dquote then Some dquote
      else if e = backslash then Some backslash
      else if e = CHR ''/'' then Some CHR ''/''
      else if e = CHR ''b'' then Some (CHR 0x08)
      else if e = CHR ''t'' then Some (CHR 0x09)
      else if e = CHR ''n'' then Some (CHR 0x0A)
      else if e = CHR ''f'' then Some (CHR 0x0C)
      else if e = CHR ''r'' then Some (CHR 0x0D)
      else None)"

definition unescape_u :: "char \<Rightarrow> char \<Rightarrow> char \<Rightarrow> char \<Rightarrow> char option" where
  "unescape_u a b c d =
     (case (hex_value a, hex_value b, hex_value c, hex_value d) of
        (Some 0, Some 0, Some x, Some y) \<Rightarrow> Some (char_of (16 * x + y))
      | _ \<Rightarrow> None)"

fun read_string_body :: "string \<Rightarrow> (string \<times> string) option" where
  "read_string_body [] = None"
| "read_string_body [c] = (if c = dquote then Some ([], []) else None)"
| "read_string_body (c # e # cs) =
     (if c = dquote then Some ([], e # cs)
      else if c = backslash then
        (if e = CHR ''u'' then
           (case cs of
              a # b # x # y # rest \<Rightarrow>
                (case unescape_u a b x y of
                   None \<Rightarrow> None
                 | Some ch \<Rightarrow> map_option (\<lambda>(str, r). (ch # str, r)) (read_string_body rest))
            | _ \<Rightarrow> None)
         else
           (case unescape e of
              None \<Rightarrow> None
            | Some ch \<Rightarrow> map_option (\<lambda>(str, r). (ch # str, r)) (read_string_body cs)))
      else if (of_char c :: nat) < 32 then None
      else map_option (\<lambda>(str, r). (c # str, r)) (read_string_body (e # cs)))"

definition read_json_string :: "string \<Rightarrow> (string \<times> string) option" where
  "read_json_string text =
     (case text of [] \<Rightarrow> None | q # cs \<Rightarrow> if q = dquote then read_string_body cs else None)"

definition expect :: "char \<Rightarrow> string \<Rightarrow> string option" where
  "expect c text = (case text of [] \<Rightarrow> None | x # rest \<Rightarrow> if x = c then Some rest else None)"

definition read_message :: "string \<Rightarrow> message option" where
  "read_message text =
     Option.bind (expect (CHR ''{'') text) (\<lambda>t1.
     Option.bind (read_json_string t1) (\<lambda>(k1, t2).
     Option.bind (expect (CHR '':'') t2) (\<lambda>t3.
     Option.bind (read_json_string t3) (\<lambda>(v1, t4).
     Option.bind (expect (CHR '','') t4) (\<lambda>t5.
     Option.bind (read_json_string t5) (\<lambda>(k2, t6).
     Option.bind (expect (CHR '':'') t6) (\<lambda>t7.
     Option.bind (read_json_string t7) (\<lambda>(v2, t8).
       if k1 = ''timestamp'' \<and> k2 = ''data'' \<and> t8 = ''}''
       then Some \<lparr>timestamp = v1, data = v2\<rparr> else None))))))))"

subsection \<open>Outcomes of an awaited connect\<close>

text \<open>The state after a connect call for a path whose device does not open.\<close>

definition failed_connect :: "role \<Rightarrow> string \<Rightarrow> string \<Rightarrow> state \<Rightarrow> state" where
  "failed_connect r p msg s =
     (let s1 = snd (new_port r p (close_existing r s));
          s2 = set_status (length (serial_ports s)) Shut s1
      in console_error ((case r of Receiver \<Rightarrow> ''Receiver port error: ''
                                 | Transmitter \<Rightarrow> ''Transmitter port error: '') @ msg) s2)"

text \<open>The state after a connect call for a path whose device opens.\<close>

definition opened_connect :: "role \<Rightarrow> string \<Rightarrow> state \<Rightarrow> state" where
  "opened_connect r p s =
     (let s1 = snd (new_port r p (close_existing r s));
          s2 = set_status (length (serial_ports s)) Opened s1
      in case r of Receiver \<Rightarrow> s2\<lparr>receiverPort := Some (length (serial_ports s))\<rparr>
                 | Transmitter \<Rightarrow> s2\<lparr>transmitterPort := Some (length (serial_ports s))\<rparr>)"

subsection \<open>Connect calls awaited one after the other\<close>

text \<open>
  \<open>await connect(role, path)\<close> for either role, and a sequence of such calls in which each
  is awaited before the next is made. The result lists the states the process passes
  through: after each call has returned its promise, and after that promise has settled.
\<close>

definition await_connect ::
    "role \<Rightarrow> (string \<Rightarrow> string option) \<Rightarrow> string option \<Rightarrow> state \<Rightarrow> (js_error + connect_result) \<times> state" where
  "await_connect r dev portPath s =
     (case r of Receiver \<Rightarrow> await_connectToReceiver dev portPath s
              | Transmitter \<Rightarrow> await_connectToTransmitter dev portPath s)"

fun awaited_connects ::
    "(string \<Rightarrow> string option) \<Rightarrow> (role \<times> string option) list \<Rightarrow> state \<Rightarrow> state list" where
  "awaited_connects dev [] s = []"
| "awaited_connects dev ((r, p) # calls) s =
     snd (connect r p s) # snd (await_connect r dev p s) #
       awaited_connects dev calls (snd (await_connect r dev p s))"

section \<open>Properties\<close>

subsection \<open>Substring search\<close>

lemma starts_with_prefix: "starts_with hay needle = prefix needle hay"
  by (induction hay needle rule: starts_with.induct) auto

lemma includes_sublist: "includes_str hay needle = sublist needle hay"
proof (induction hay)
  case Nil
  then show ?case by simp
next
  case (Cons h hs)
  then show ?case
    by (simp add: starts_with_prefix sublist_Cons_right)
qed

lemma includes_chars: "includes_str hay needle \<Longrightarrow> set needle \<subseteq> set hay"
  by (auto simp: includes_sublist sublist_def)

subsection \<open>Decimal digits\<close>

lemma below_10:
  "(k::nat) < 10 \<Longrightarrow> k \<in> {0, 1, 2, 3, 4, 5, 6, 7, 8, 9}"
  by simp arith

lemma decimal_digit: "k < 10 \<Longrightarrow> (of_char (''0123456789'' ! k) :: nat) - 48 = k"
  using below_10 [of k] by auto

lemma decimal_value_nat_to_string: "decimal_value (nat_to_string n) = n"
proof (induction n rule: nat_to_string.induct)
  case (1 n)
  show ?case
  proof (cases "n < 10")
    case True
    then show ?thesis
      by (simp add: nat_to_string.simps [of n] decimal_value_def decimal_digit)
  next
    case False
    with 1 have "decimal_value (nat_to_string (n div 10)) = n div 10" by simp
    with False show ?thesis
      by (simp add: nat_to_string.simps [of n] decimal_value_def decimal_digit)
  qed
qed

subsection \<open>The receiver's line filter\<close>







subsection \<open>Ports and connections\<close>

lemma console_error_fields [simp]:
  "receiverPort (console_error l s) = receiverPort s"
  "transmitterPort (console_error l s) = transmitterPort s"
  "connectedClients (console_error l s) = connectedClients s"
  "responses (console_error l s) = responses s"
  "serial_ports (console_error l s) = serial_ports s"
  "error_log (console_error l s) = error_log s @ [l]"
  by (simp_all add: console_error_def)

lemma length_set_status [simp]: "length (serial_ports (set_status h st s)) = length (serial_ports s)"
  by (simp add: set_status_def)

lemma nth_set_status:
  "serial_ports (set_status h st s) ! k =
     (if k = h \<and> h < length (serial_ports s) then (serial_ports s ! h)\<lparr>sp_status := st\<rparr>
      else serial_ports s ! k)"
  by (cases "h < length (serial_ports s)") (auto simp: set_status_def nth_list_update list_update_beyond)

lemma role_set_status [simp]:
  "sp_role (serial_ports (set_status h st s) ! k) = sp_role (serial_ports s ! k)"
  by (simp add: nth_set_status)

lemma set_status_fields [simp]:
  "receiverPort (set_status h st s) = receiverPort s"
  "transmitterPort (set_status h st s) = transmitterPort s"
  "connectedClients (set_status h st s) = connectedClients s"
  "responses (set_status h st s) = responses s"
  "error_log (set_status h st s) = error_log s"
  by (simp_all add: set_status_def)

lemma isOpen_set_status:
  "isOpen (set_status h st s) k =
     (if k = h \<and> h < length (serial_ports s) then st = Opened else isOpen s k)"
  by (auto simp: isOpen_def nth_set_status)

lemma open_ports_empty:
  "(open_ports r s = []) = (\<forall>h. isOpen s h \<longrightarrow> sp_role (serial_ports s ! h) \<noteq> r)"
  by (auto simp: open_ports_def isOpen_def filter_empty_conv)

lemma set_open_ports:
  "set (open_ports r s) = {h. isOpen s h \<and> sp_role (serial_ports s ! h) = r}"
  by (auto simp: open_ports_def isOpen_def)

lemma connect_falsy:
  assumes "falsy portPath"
  shows "connect r portPath s =
           (Resolved \<lparr>success = True, disconnected = True\<rparr>,
            (case r of Receiver \<Rightarrow> (close_existing r s)\<lparr>receiverPort := None\<rparr>
                     | Transmitter \<Rightarrow> (close_existing r s)\<lparr>transmitterPort := None\<rparr>))"
  using assms
  by (auto simp: connect_def connectToReceiver_def connectToTransmitter_def falsy_def
      close_existing_def handle_of_def split: role.splits option.splits)

lemma isOpen_close_existing:
  "isOpen (close_existing r s) k = (isOpen s k \<and> handle_of r s \<noteq> Some k)"
proof (cases "handle_of r s")
  case None
  then show ?thesis by (simp add: close_existing_def)
next
  case (Some h)
  show ?thesis
  proof (cases "isOpen s h")
    case True
    then have "h < length (serial_ports s)" by (simp add: isOpen_def)
    with Some True show ?thesis
      by (auto simp: close_existing_def close_port_def isOpen_set_status)
  next
    case False
    with Some show ?thesis by (auto simp: close_existing_def)
  qed
qed

lemma role_close_existing [simp]:
  "sp_role (serial_ports (close_existing r s) ! k) = sp_role (serial_ports s ! k)"
  by (simp add: close_existing_def close_port_def split: option.splits)

lemma close_existing_fields [simp]:
  "receiverPort (close_existing r s) = receiverPort s"
  "transmitterPort (close_existing r s) = transmitterPort s"
  "connectedClients (close_existing r s) = connectedClients s"
  "responses (close_existing r s) = responses s"
  "error_log (close_existing r s) = error_log s"
  "length (serial_ports (close_existing r s)) = length (serial_ports s)"
  by (simp_all add: close_existing_def close_port_def split: option.splits)

lemma isOpen_handle_update [simp]:
  "isOpen (s\<lparr>receiverPort := x\<rparr>) k = isOpen s k"
  "isOpen (s\<lparr>transmitterPort := y\<rparr>) k = isOpen s k"
  by (simp_all add: isOpen_def)

lemma example_state_reached:
  "run [ConnectReceiver (Some ''/dev/ttyUSB0''), PortOpens 0,
        ConnectTransmitter (Some ''/dev/ttyACM0''), PortOpens 1,
        EventsRequest, EventsRequest, SocketGone 0] initial_state = Some example_state"
  by (simp add: initial_state_def example_state_def connectToReceiver_def connectToTransmitter_def
      new_port_def port_opens_def receiver_on_open_def transmitter_on_open_def set_status_def
      isOpen_def api_events_def)

lemma run_reachable: "reachable s \<Longrightarrow> run es s = Some s' \<Longrightarrow> reachable s'"
proof (induction es arbitrary: s)
  case Nil
  then show ?case by simp
next
  case (Cons e es)
  from Cons.prems(2) have e: "enabled e s" and r: "run es (fire e s) = Some s'"
    by (simp_all split: if_splits)
  from Cons.prems(1) e have "reachable (fire e s)" by (rule reachable.step)
  then show ?case using r by (rule Cons.IH)
qed

lemma example_state_reachable: "reachable example_state"
  using reachable.start example_state_reached by (rule run_reachable)

lemma example_state_tracked: "tracked example_state"
  by (simp add: tracked_def example_state_def handle_of_def less_Suc_eq numeral_2_eq_2)

lemma new_port_fields [simp]:
  "receiverPort (snd (new_port r p s)) = receiverPort s"
  "transmitterPort (snd (new_port r p s)) = transmitterPort s"
  "connectedClients (snd (new_port r p s)) = connectedClients s"
  "responses (snd (new_port r p s)) = responses s"
  "error_log (snd (new_port r p s)) = error_log s"
  "serial_ports (snd (new_port r p s)) =
     serial_ports s @ [\<lparr>sp_path = p, sp_role = r, sp_status = Opening, sp_written = []\<rparr>]"
  "fst (new_port r p s) = length (serial_ports s)"
  by (simp_all add: new_port_def)

lemma connect_truthy:
  assumes "p \<noteq> []"
  shows "connect r (Some p) s =
           (Pending (length (serial_ports s)), snd (new_port r p (close_existing r s)))"
  using assms
  by (cases r)
     (auto simp: connect_def connectToReceiver_def connectToTransmitter_def close_existing_def
        handle_of_def new_port_def close_port_def Let_def split: option.splits)

lemma connectToReceiver_connect: "connectToReceiver p s = connect Receiver p s"
  by (simp add: connect_def)

lemma connectToTransmitter_connect: "connectToTransmitter p s = connect Transmitter p s"
  by (simp add: connect_def)

lemma await_receiver_fails:
  assumes "p \<noteq> []" and "dev p = Some msg"
  shows "await_connectToReceiver dev (Some p) s = (Inl (Error msg), failed_connect Receiver p msg s)"
  using assms
  by (simp add: await_connectToReceiver_def connectToReceiver_connect connect_truthy
      port_fails_def receiver_on_error_def failed_connect_def Let_def nth_append)


lemma await_transmitter_fails:
  assumes "p \<noteq> []" and "dev p = Some msg"
  shows "await_connectToTransmitter dev (Some p) s = (Inl (Error msg), failed_connect Transmitter p msg s)"
  using assms
  by (simp add: await_connectToTransmitter_def connectToTransmitter_connect connect_truthy
      port_fails_def transmitter_on_error_def failed_connect_def Let_def nth_append)

lemma await_receiver_opens:
  assumes "p \<noteq> []" and "dev p = None"
  shows "await_connectToReceiver dev (Some p) s =
           (Inr \<lparr>success = True, disconnected = False\<rparr>, opened_connect Receiver p s)"
  using assms
  by (simp add: await_connectToReceiver_def connectToReceiver_connect connect_truthy
      port_opens_def receiver_on_open_def opened_connect_def Let_def nth_append)

lemma await_transmitter_opens:
  assumes "p \<noteq> []" and "dev p = None"
  shows "await_connectToTransmitter dev (Some p) s =
           (Inr \<lparr>success = True, disconnected = False\<rparr>, opened_connect Transmitter p s)"
  using assms
  by (simp add: await_connectToTransmitter_def connectToTransmitter_connect connect_truthy
      port_opens_def transmitter_on_open_def opened_connect_def Let_def nth_append)

lemma failed_connect_fields [simp]:
  "receiverPort (failed_connect r p msg s) = receiverPort s"
  "transmitterPort (failed_connect r p msg s) = transmitterPort s"
  "connectedClients (failed_connect r p msg s) = connectedClients s"
  "responses (failed_connect r p msg s) = responses s"
  "length (serial_ports (failed_connect r p msg s)) = Suc (length (serial_ports s))"
  "error_log (failed_connect r p msg s) =
     error_log s @ [(case r of Receiver \<Rightarrow> ''Receiver port error: ''
                             | Transmitter \<Rightarrow> ''Transmitter port error: '') @ msg]"
  by (simp_all add: failed_connect_def Let_def console_error_def)

lemma isOpen_console_error [simp]: "isOpen (console_error l s) k = isOpen s k"
  by (simp add: isOpen_def console_error_def)

lemma isOpen_new_port:
  "isOpen (snd (new_port r p s)) k = isOpen s k"
  by (auto simp: isOpen_def nth_append less_Suc_eq)

lemma isOpen_failed_connect:
  "isOpen (failed_connect r p msg s) k = (isOpen s k \<and> handle_of r s \<noteq> Some k)"
proof -
  have "k < length (serial_ports s)" if "isOpen s k"
    using that by (simp add: isOpen_def)
  then show ?thesis
    by (auto simp: failed_connect_def Let_def isOpen_set_status isOpen_new_port isOpen_close_existing)
qed

lemma isOpen_opened_connect:
  "isOpen (opened_connect r p s) k =
     (k = length (serial_ports s) \<or> isOpen s k \<and> handle_of r s \<noteq> Some k)"
proof -
  have "k < length (serial_ports s)" if "isOpen s k"
    using that by (simp add: isOpen_def)
  then show ?thesis
    by (cases r)
       (auto simp: opened_connect_def Let_def isOpen_set_status isOpen_new_port isOpen_close_existing)
qed

text \<open>
  What a disconnect request does in every state: a connect call for either role with an
  absent or empty path resolves at once with \<open>{success: true, disconnected: true}\<close> (the
  disconnect answer, not an error); afterwards the role's variable is \<open>null\<close>, the port it
  referred to is not open, no port has been opened and the other role is untouched. Where
  every open port was the one its role's variable referred to, no port of the role is open.
\<close>

lemma disconnect_request:
  assumes "falsy portPath"
  shows "fst (connect r portPath s) = Resolved \<lparr>success = True, disconnected = True\<rparr>
         \<and> handle_of r (snd (connect r portPath s)) = None
         \<and> handle_of (other r) (snd (connect r portPath s)) = handle_of (other r) s
         \<and> (\<forall>h. handle_of r s = Some h \<longrightarrow> \<not> isOpen (snd (connect r portPath s)) h)
         \<and> (\<forall>h. isOpen (snd (connect r portPath s)) h \<longrightarrow> isOpen s h)
         \<and> (tracked s \<longrightarrow> open_ports r (snd (connect r portPath s)) = [])"
proof -
  let ?s = "snd (connect r portPath s)"
  note c = connect_falsy [OF assms, of r s]
  have a: "fst (connect r portPath s) = Resolved \<lparr>success = True, disconnected = True\<rparr>"
    by (simp add: c)
  have b: "handle_of r ?s = None" "handle_of (other r) ?s = handle_of (other r) s"
    by (simp_all add: c handle_of_def other_def split: role.splits)
  have o: "isOpen ?s k = (isOpen s k \<and> handle_of r s \<noteq> Some k)" for k
    unfolding c by (cases r) (simp_all add: isOpen_close_existing)
  have d: "\<forall>h. handle_of r s = Some h \<longrightarrow> \<not> isOpen ?s h"
    by (simp add: o)
  have e: "\<forall>h. isOpen ?s h \<longrightarrow> isOpen s h"
    by (simp add: o)
  have f: "open_ports r ?s = []" if t: "tracked s"
  proof -
    have "sp_role (serial_ports ?s ! h) \<noteq> r" if "isOpen ?s h" for h
    proof
      assume rl: "sp_role (serial_ports ?s ! h) = r"
      have "sp_role (serial_ports ?s ! h) = sp_role (serial_ports s ! h)"
        unfolding c by (cases r) simp_all
      with rl have "sp_role (serial_ports s ! h) = r" by simp
      moreover from that have "isOpen s h" and "handle_of r s \<noteq> Some h" by (simp_all add: o)
      ultimately show False using t by (auto simp: tracked_def isOpen_def)
    qed
    then show ?thesis by (simp add: open_ports_empty)
  qed
  from a b d e f show ?thesis by blast
qed


lemma disconnect_request_example:
  "falsy None \<and> falsy (Some [])
   \<and> handle_of Receiver example_state = Some 0 \<and> isOpen example_state 0
   \<and> fst (connect Receiver None example_state) = Resolved \<lparr>success = True, disconnected = True\<rparr>
   \<and> handle_of Receiver (snd (connect Receiver None example_state)) = None
   \<and> \<not> isOpen (snd (connect Receiver None example_state)) 0
   \<and> open_ports Receiver (snd (connect Receiver None example_state)) = []
   \<and> fst (connect Transmitter (Some []) initial_state) = Resolved \<lparr>success = True, disconnected = True\<rparr>"
proof -
  have f: "falsy None" "falsy (Some [])" by (simp_all add: falsy_def)
  have h: "handle_of Receiver example_state = Some 0" "isOpen example_state 0"
    by (simp_all add: handle_of_def example_state_def isOpen_def)
  from disconnect_request [OF f(1), of Receiver example_state] h example_state_tracked
    disconnect_request [OF f(2), of Transmitter initial_state] f
  show ?thesis by simp
qed

subsection \<open>One connection per role\<close>

lemma distinct_open_ports: "distinct (open_ports r s)"
  by (simp add: open_ports_def)

lemma tracked_open_ports:
  assumes "tracked s" and "h \<in> set (open_ports r s)"
  shows "handle_of r s = Some h"
  using assms by (auto simp: tracked_def set_open_ports isOpen_def)

lemma tracked_at_most_one:
  assumes "tracked s"
  shows "length (open_ports r s) \<le> 1"
proof -
  have "set (open_ports r s) \<subseteq> {h. handle_of r s = Some h}"
    using tracked_open_ports [OF assms] by auto
  also have "\<dots> \<subseteq> (case handle_of r s of None \<Rightarrow> {} | Some h \<Rightarrow> {h})"
    by (auto split: option.splits)
  finally have "card (set (open_ports r s)) \<le> card (case handle_of r s of None \<Rightarrow> {} | Some h \<Rightarrow> {h})"
    by (intro card_mono) (auto split: option.splits)
  also have "\<dots> \<le> 1" by (simp split: option.splits)
  finally show ?thesis by (simp add: distinct_card [OF distinct_open_ports])
qed

lemma tracked_iff:
  "tracked s = (\<forall>h. isOpen s h \<longrightarrow> handle_of (sp_role (serial_ports s ! h)) s = Some h)"
  by (auto simp: tracked_def isOpen_def)

lemma settled_iff:
  "settled s = (tracked s \<and> (\<forall>h<length (serial_ports s). sp_status (serial_ports s ! h) \<noteq> Opening))"
  by (auto simp: settled_def tracked_def)


lemma status_close_existing:
  "sp_status (serial_ports (close_existing r s) ! k) =
     (if handle_of r s = Some k \<and> isOpen s k then Shut else sp_status (serial_ports s ! k))"
  by (auto simp: close_existing_def close_port_def nth_set_status isOpen_def split: option.splits)

lemma handle_of_fields [simp]:
  "handle_of r (set_status h st s) = handle_of r s"
  "handle_of r (close_existing r' s) = handle_of r s"
  "handle_of r (snd (new_port r' p s)) = handle_of r s"
  "handle_of r (console_error l s) = handle_of r s"
  by (simp_all add: handle_of_def split: role.splits)

lemma handle_of_update:
  "handle_of r (s\<lparr>receiverPort := x\<rparr>) = (if r = Receiver then x else handle_of r s)"
  "handle_of r (s\<lparr>transmitterPort := x\<rparr>) = (if r = Transmitter then x else handle_of r s)"
  by (simp_all add: handle_of_def split: role.splits)

lemma isOpen_length: "isOpen s k \<Longrightarrow> k < length (serial_ports s)"
  by (simp add: isOpen_def)

text \<open>The state after any connect call, through what it does to ports, roles and variables.\<close>

lemma connect_call_isOpen:
  "isOpen (snd (connect r p s)) k = (isOpen s k \<and> handle_of r s \<noteq> Some k)"
proof (cases "falsy p")
  case True
  show ?thesis
    unfolding connect_falsy [OF True] by (cases r) (simp_all add: isOpen_close_existing)
next
  case False
  then obtain q where "p = Some q" "q \<noteq> []" by (auto simp: falsy_def split: option.splits)
  then show ?thesis
    by (simp add: connect_truthy isOpen_new_port isOpen_close_existing)
qed

lemma connect_call_role:
  assumes "k < length (serial_ports s)"
  shows "sp_role (serial_ports (snd (connect r p s)) ! k) = sp_role (serial_ports s ! k)"
proof (cases "falsy p")
  case True
  show ?thesis
    unfolding connect_falsy [OF True] by (cases r) simp_all
next
  case False
  then obtain q where "p = Some q" "q \<noteq> []" by (auto simp: falsy_def split: option.splits)
  with assms show ?thesis
    by (simp add: connect_truthy nth_append)
qed

lemma connect_call_handle:
  "handle_of r' (snd (connect r p s)) = (if r' = r \<and> falsy p then None else handle_of r' s)"
proof (cases "falsy p")
  case True
  show ?thesis
    unfolding connect_falsy [OF True] using True
    by (cases r; cases r') (simp_all add: handle_of_update)
next
  case False
  then obtain q where "p = Some q" "q \<noteq> []" by (auto simp: falsy_def split: option.splits)
  with False show ?thesis
    by (simp add: connect_truthy)
qed

lemma tracked_connect_call:
  assumes "tracked s"
  shows "tracked (snd (connect r p s))"
  unfolding tracked_iff
proof (intro allI impI)
  fix k
  assume o: "isOpen (snd (connect r p s)) k"
  then have k: "isOpen s k" and n: "handle_of r s \<noteq> Some k"
    by (simp_all add: connect_call_isOpen)
  from k have l: "k < length (serial_ports s)" by (rule isOpen_length)
  from assms k have h: "handle_of (sp_role (serial_ports s ! k)) s = Some k"
    by (simp add: tracked_iff)
  with n have "sp_role (serial_ports s ! k) \<noteq> r" by auto
  with h l show "handle_of (sp_role (serial_ports (snd (connect r p s)) ! k)) (snd (connect r p s)) = Some k"
    by (simp add: connect_call_role connect_call_handle)
qed


lemma await_connect_cases:
  "await_connect r dev p s =
     (if falsy p then (Inr \<lparr>success = True, disconnected = True\<rparr>, snd (connect r p s))
      else case dev (the p) of
             None \<Rightarrow> (Inr \<lparr>success = True, disconnected = False\<rparr>, opened_connect r (the p) s)
           | Some msg \<Rightarrow> (Inl (Error msg), failed_connect r (the p) msg s))"
proof (cases "falsy p")
  case True
  from connect_falsy [OF True, of Receiver s] connect_falsy [OF True, of Transmitter s] True
  show ?thesis
    by (cases r)
       (simp_all add: await_connect_def await_connectToReceiver_def await_connectToTransmitter_def
          connectToReceiver_connect connectToTransmitter_connect)
next
  case False
  then obtain q where q: "p = Some q" "q \<noteq> []" by (auto simp: falsy_def split: option.splits)
  show ?thesis
  proof (cases "dev q")
    case None
    with q False show ?thesis
      by (cases r) (simp_all add: await_connect_def await_receiver_opens await_transmitter_opens)
  next
    case (Some msg)
    with q False show ?thesis
      by (cases r) (simp_all add: await_connect_def await_receiver_fails await_transmitter_fails)
  qed
qed

lemma failed_connect_nth:
  "k \<le> length (serial_ports s) \<Longrightarrow>
   serial_ports (failed_connect r p msg s) ! k =
     (if k = length (serial_ports s)
      then \<lparr>sp_path = p, sp_role = r, sp_status = Shut, sp_written = []\<rparr>
      else serial_ports (close_existing r s) ! k)"
  by (simp add: failed_connect_def Let_def nth_set_status nth_append)

lemma opened_connect_nth:
  "k \<le> length (serial_ports s) \<Longrightarrow>
   serial_ports (opened_connect r p s) ! k =
     (if k = length (serial_ports s)
      then \<lparr>sp_path = p, sp_role = r, sp_status = Opened, sp_written = []\<rparr>
      else serial_ports (close_existing r s) ! k)"
  by (cases r) (simp_all add: opened_connect_def Let_def nth_set_status nth_append)

lemma opened_connect_length [simp]:
  "length (serial_ports (opened_connect r p s)) = Suc (length (serial_ports s))"
  by (cases r) (simp_all add: opened_connect_def Let_def)

lemma opened_connect_handle_of:
  "handle_of r' (opened_connect r p s) = (if r' = r then Some (length (serial_ports s)) else handle_of r' s)"
  by (cases r; cases r') (simp_all add: opened_connect_def Let_def handle_of_update)

lemma failed_connect_handle_of [simp]:
  "handle_of r' (failed_connect r p msg s) = handle_of r' s"
  by (simp add: handle_of_def split: role.splits)

lemma settled_initial: "settled initial_state"
  by (simp add: settled_def initial_state_def)

lemma settled_connect_falsy:
  assumes "settled s" and "falsy p"
  shows "settled (snd (connect r p s))"
proof -
  from assms have t: "tracked (snd (connect r p s))"
    by (simp add: settled_iff tracked_connect_call)
  have "sp_status (serial_ports (snd (connect r p s)) ! k) \<noteq> Opening"
    if "k < length (serial_ports (snd (connect r p s)))" for k
    using that assms(1) unfolding connect_falsy [OF assms(2)]
    by (cases r) (auto simp: settled_iff status_close_existing split: if_splits)
  with t show ?thesis by (simp add: settled_iff)
qed

lemma settled_failed_connect:
  assumes "settled s"
  shows "settled (failed_connect r p msg s)"
  unfolding settled_iff tracked_iff
proof (intro conjI allI impI)
  fix k
  assume "isOpen (failed_connect r p msg s) k"
  then have k: "isOpen s k" and n: "handle_of r s \<noteq> Some k"
    by (simp_all add: isOpen_failed_connect)
  from k have l: "k < length (serial_ports s)" by (rule isOpen_length)
  from assms k have h: "handle_of (sp_role (serial_ports s ! k)) s = Some k"
    by (simp add: settled_iff tracked_iff)
  from l h show "handle_of (sp_role (serial_ports (failed_connect r p msg s) ! k)) (failed_connect r p msg s) = Some k"
    by (simp add: failed_connect_nth)
next
  fix k
  assume "k < length (serial_ports (failed_connect r p msg s))"
  with assms show "sp_status (serial_ports (failed_connect r p msg s) ! k) \<noteq> Opening"
    by (auto simp: failed_connect_nth status_close_existing settled_iff less_Suc_eq split: if_splits)
qed

lemma settled_opened_connect:
  assumes "settled s"
  shows "settled (opened_connect r p s)"
  unfolding settled_iff tracked_iff
proof (intro conjI allI impI)
  fix k
  assume o: "isOpen (opened_connect r p s) k"
  show "handle_of (sp_role (serial_ports (opened_connect r p s) ! k)) (opened_connect r p s) = Some k"
  proof (cases "k = length (serial_ports s)")
    case True
    then show ?thesis by (simp add: opened_connect_nth opened_connect_handle_of)
  next
    case False
    with o have k: "isOpen s k" and n: "handle_of r s \<noteq> Some k"
      by (simp_all add: isOpen_opened_connect)
    from assms k have h: "handle_of (sp_role (serial_ports s ! k)) s = Some k"
      by (simp add: settled_iff tracked_iff)
    with n have "sp_role (serial_ports s ! k) \<noteq> r" by auto
    moreover from k have "k \<le> length (serial_ports s)" by (simp add: isOpen_def)
    ultimately show ?thesis using False h
      by (simp add: opened_connect_nth opened_connect_handle_of)
  qed
next
  fix k
  assume "k < length (serial_ports (opened_connect r p s))"
  with assms show "sp_status (serial_ports (opened_connect r p s) ! k) \<noteq> Opening"
    by (auto simp: opened_connect_nth status_close_existing settled_iff less_Suc_eq split: if_splits)
qed

lemma settled_await_connect:
  assumes "settled s"
  shows "settled (snd (await_connect r dev p s))"
  using assms
  by (auto simp: await_connect_cases settled_connect_falsy settled_failed_connect settled_opened_connect
      split: option.splits)

lemma awaited_connects_one_open:
  assumes "settled s" and "s' \<in> set (awaited_connects dev calls s)"
  shows "length (open_ports r s') \<le> 1"
  using assms
proof (induction calls arbitrary: s)
  case Nil
  then show ?case by simp
next
  case (Cons c calls)
  obtain r' p where c: "c = (r', p)" by (cases c)
  from Cons.prems(1) have a: "tracked (snd (connect r' p s))"
    by (simp add: settled_iff tracked_connect_call)
  from Cons.prems(1) have b: "settled (snd (await_connect r' dev p s))"
    by (rule settled_await_connect)
  from Cons.prems(2) consider "s' = snd (connect r' p s)" | "s' = snd (await_connect r' dev p s)"
    | "s' \<in> set (awaited_connects dev calls (snd (await_connect r' dev p s)))"
    by (auto simp: c)
  then show ?case
  proof cases
    case 1
    with tracked_at_most_one [OF a, of r] show ?thesis by simp
  next
    case 2
    from b have "tracked (snd (await_connect r' dev p s))" by (simp add: settled_iff)
    from tracked_at_most_one [OF this, of r] 2 show ?thesis by simp
  next
    case 3
    with b show ?thesis by (rule Cons.IH)
  qed
qed

text \<open>
  C2. The claim holds for connect calls that are awaited one after the other (lemma
  \<open>awaited_connects_one_open\<close>), but not for every sequence of calls. A connect function
  closes the port its role's variable refers to, and the variable takes a new port only in
  the \<open>open\<close> handler. So a second call made while the first port is still opening finds
  nothing to close: both ports open, the variable refers to the second, and a later
  disconnect request closes the second only. The first port stays open with nothing
  referring to it.
\<close>

theorem overlapping_connects_leave_two_open:
  "map_option (open_ports Receiver)
     (run [ConnectReceiver (Some ''/dev/ttyUSB0''), ConnectReceiver (Some ''/dev/ttyUSB1''),
           PortOpens 0, PortOpens 1] initial_state) = Some [0, 1]
   \<and> map_option receiverPort
     (run [ConnectReceiver (Some ''/dev/ttyUSB0''), ConnectReceiver (Some ''/dev/ttyUSB1''),
           PortOpens 0, PortOpens 1] initial_state) = Some (Some 1)
   \<and> map_option (open_ports Receiver)
     (run [ConnectReceiver (Some ''/dev/ttyUSB0''), ConnectReceiver (Some ''/dev/ttyUSB1''),
           PortOpens 0, PortOpens 1, ConnectReceiver None] initial_state) = Some [0]
   \<and> map_option receiverPort
     (run [ConnectReceiver (Some ''/dev/ttyUSB0''), ConnectReceiver (Some ''/dev/ttyUSB1''),
           PortOpens 0, PortOpens 1, ConnectReceiver None] initial_state) = Some None"
  by (simp add: initial_state_def connectToReceiver_def new_port_def port_opens_def
      receiver_on_open_def set_status_def close_port_def isOpen_def open_ports_def upt_rec)

text \<open>
  C6. The claim holds in the states where every open port is the one its role's variable
  refers to and no port is opening (lemma \<open>disconnect_request\<close>), but not in every state
  the process reaches. A disconnect request made while the role's port is still opening
  answers \<open>{success: true, disconnected: true}\<close> and sets the variable to \<open>null\<close>, yet the
  port opens afterwards and its \<open>open\<close> handler sets the variable again: the role ends
  connected. And after two overlapping connect calls (C2), a disconnect request answers the
  same and leaves the first port open. Both come from the one defect of C2: a port is known
  to its role's variable only from its \<open>open\<close> event on.
\<close>

theorem disconnect_leaves_port_open:
  "map_option (\<lambda>s. (fst (connect Receiver None s), handle_of Receiver (snd (connect Receiver None s))))
     (run [ConnectReceiver (Some ''/dev/ttyUSB0'')] initial_state)
     = Some (Resolved \<lparr>success = True, disconnected = True\<rparr>, None)
   \<and> map_option (\<lambda>s. (receiverPort s, open_ports Receiver s))
     (run [ConnectReceiver (Some ''/dev/ttyUSB0''), ConnectReceiver None, PortOpens 0] initial_state)
     = Some (Some 0, [0])
   \<and> map_option (\<lambda>s. (fst (connect Receiver None s), handle_of Receiver (snd (connect Receiver None s)),
                         open_ports Receiver (snd (connect Receiver None s))))
     (run [ConnectReceiver (Some ''/dev/ttyUSB0''), ConnectReceiver (Some ''/dev/ttyUSB1''),
           PortOpens 0, PortOpens 1] initial_state)
     = Some (Resolved \<lparr>success = True, disconnected = True\<rparr>, None, [0])"
proof -
  let ?usb0 = "''/dev/ttyUSB0''" and ?usb1 = "''/dev/ttyUSB1''"
  let ?opening = "\<lparr>receiverPort = None, transmitterPort = None, connectedClients = [],
      serial_ports = [\<lparr>sp_path = ?usb0, sp_role = Receiver, sp_status = Opening, sp_written = []\<rparr>],
      responses = [], error_log = []\<rparr>"
  let ?ended = "\<lparr>receiverPort = Some 0, transmitterPort = None, connectedClients = [],
      serial_ports = [\<lparr>sp_path = ?usb0, sp_role = Receiver, sp_status = Opened, sp_written = []\<rparr>],
      responses = [], error_log = []\<rparr>"
  let ?leaked = "\<lparr>receiverPort = Some 1, transmitterPort = None, connectedClients = [],
      serial_ports = [\<lparr>sp_path = ?usb0, sp_role = Receiver, sp_status = Opened, sp_written = []\<rparr>,
                      \<lparr>sp_path = ?usb1, sp_role = Receiver, sp_status = Opened, sp_written = []\<rparr>],
      responses = [], error_log = []\<rparr>"
  have r1: "run [ConnectReceiver (Some ?usb0)] initial_state = Some ?opening"
    by (simp add: initial_state_def connectToReceiver_def new_port_def)
  have r2: "run [ConnectReceiver (Some ?usb0), ConnectReceiver None, PortOpens 0] initial_state = Some ?ended"
    by (simp add: initial_state_def connectToReceiver_def new_port_def port_opens_def
        receiver_on_open_def set_status_def)
  have r3: "run [ConnectReceiver (Some ?usb0), ConnectReceiver (Some ?usb1), PortOpens 0, PortOpens 1]
              initial_state = Some ?leaked"
    by (simp add: initial_state_def connectToReceiver_def new_port_def port_opens_def
        receiver_on_open_def set_status_def)
  have a: "fst (connect Receiver None ?opening) = Resolved \<lparr>success = True, disconnected = True\<rparr>"
    "handle_of Receiver (snd (connect Receiver None ?opening)) = None"
    by (simp_all add: connect_def connectToReceiver_def handle_of_def)
  have b: "receiverPort ?ended = Some 0" "open_ports Receiver ?ended = [0]"
    by (simp_all add: open_ports_def)
  have c: "fst (connect Receiver None ?leaked) = Resolved \<lparr>success = True, disconnected = True\<rparr>"
    "handle_of Receiver (snd (connect Receiver None ?leaked)) = None"
    "open_ports Receiver (snd (connect Receiver None ?leaked)) = [0]"
    by (simp_all add: connect_def connectToReceiver_def handle_of_def isOpen_def close_port_def
        set_status_def open_ports_def upt_rec)
  show ?thesis
    by (simp only: r1 r2 r3 option.map a b c)
qed


subsection \<open>Sending\<close>

text \<open>
  C4. When the transmitter's variable is \<open>null\<close> or the port it refers to is not open,
  \<open>sendIRCommand\<close> rejects with the error \<open>Transmitter not connected\<close> and the state is
  what it was: nothing is written to any port. The caller gets the error: the
  \<open>/api/send\<close> route answers 500 with that message.
\<close>

theorem send_not_connected:
  assumes "transmitterPort s = None \<or> (\<exists>h. transmitterPort s = Some h \<and> \<not> isOpen s h)"
  shows "sendIRCommand protocol bits code ack s = (Inl (Error ''Transmitter not connected''), s)
         \<and> api_send protocol bits code ack s =
             ((500, ''{'' @ json_string ''error'' @ '':'' @ json_string ''Transmitter not connected'' @ ''}''), s)"
  using assms by (auto simp: sendIRCommand_def api_send_def)

theorem send_not_connected_witness:
  "transmitterPort initial_state = None
   \<and> sendIRCommand ''NEC'' 32 ''0x1'' None initial_state
       = (Inl (Error ''Transmitter not connected''), initial_state)
   \<and> fst (api_send ''NEC'' 32 ''0x1'' None initial_state)
       = (500, ''{'' @ [dquote] @ ''error'' @ [dquote] @ '':'' @ [dquote] @ ''Transmitter not connected''
                @ [dquote] @ ''}'')
   \<and> transmitterPort (fire (PortLost 1) example_state) = Some 1
   \<and> \<not> isOpen (fire (PortLost 1) example_state) 1
   \<and> sendIRCommand ''NEC'' 32 ''0x1'' None (fire (PortLost 1) example_state)
       = (Inl (Error ''Transmitter not connected''), fire (PortLost 1) example_state)"
proof -
  have h: "transmitterPort initial_state = None" by (simp add: initial_state_def)
  have j: "json_string ''error'' = [dquote] @ ''error'' @ [dquote]"
    "json_string ''Transmitter not connected'' = [dquote] @ ''Transmitter not connected'' @ [dquote]"
    by (simp_all add: json_string_def json_escape_def dquote_def backslash_def)
  have k: "transmitterPort (fire (PortLost 1) example_state) = Some 1"
    "\<not> isOpen (fire (PortLost 1) example_state) 1"
    by (simp_all add: example_state_def isOpen_set_status)
  from send_not_connected [of initial_state "''NEC''" 32 "''0x1''" None]
    send_not_connected [of "fire (PortLost 1) example_state" "''NEC''" 32 "''0x1''" None] h j k
  show ?thesis by simp
qed

lemma port_write_fields [simp]:
  "receiverPort (port_write h command s) = receiverPort s"
  "transmitterPort (port_write h command s) = transmitterPort s"
  "connectedClients (port_write h command s) = connectedClients s"
  "responses (port_write h command s) = responses s"
  "error_log (port_write h command s) = error_log s"
  "length (serial_ports (port_write h command s)) = length (serial_ports s)"
  by (simp_all add: port_write_def)

lemma nth_port_write:
  "serial_ports (port_write h command s) ! k =
     (if k = h \<and> h < length (serial_ports s)
      then (serial_ports s ! h)\<lparr>sp_written := sp_written (serial_ports s ! h) @ [command]\<rparr>
      else serial_ports s ! k)"
  by (cases "h < length (serial_ports s)") (auto simp: port_write_def nth_list_update list_update_beyond)

lemma isOpen_port_write [simp]: "isOpen (port_write h command s) k = isOpen s k"
  by (auto simp: isOpen_def nth_port_write)

lemma port_fails_state:
  "snd (port_fails h msg s) =
     console_error ((case sp_role (serial_ports s ! h) of
                       Receiver \<Rightarrow> ''Receiver port error: ''
                     | Transmitter \<Rightarrow> ''Transmitter port error: '') @ msg)
       (set_status h Shut s)"
  by (simp add: port_fails_def receiver_on_error_def transmitter_on_error_def split: role.splits)

lemma sendIRCommand_connected:
  assumes "transmitterPort s = Some h" and "isOpen s h"
  shows "sendIRCommand protocol bits code ack s =
           (case ack of
              None \<Rightarrow> (Inr \<lparr>success = True, disconnected = False\<rparr>,
                        port_write h (protocol @ '','' @ number_to_string bits @ '','' @ code @ [newline]) s)
            | Some err \<Rightarrow>
                (Inl (Error err),
                 snd (port_fails h err
                        (port_write h (protocol @ '','' @ number_to_string bits @ '','' @ code @ [newline]) s))))"
  using assms by (simp add: sendIRCommand_def Let_def split: option.splits)

text \<open>
  C5. On a connected transmitter, \<open>sendIRCommand\<close> hands to the transmitter's port, and to
  no other, exactly the line \<open>protocol,bits,code\<close> ended by a newline, with the bit length (a
  safe integer) in decimal (a reader of decimal digits gets a non-negative bit length back).
  The promise resolves exactly when the transport reports the write without an error, the
  port then staying open and nothing being logged; it rejects with the transport's error
  otherwise, and then the port is shut and its error listener has logged the message.
\<close>

theorem send_writes_command:
  assumes "transmitterPort s = Some h" and "isOpen s h" and "\<bar>bits\<bar> < 2 ^ 53"
  shows "sp_written (serial_ports (snd (sendIRCommand protocol bits code ack s)) ! h) =
           sp_written (serial_ports s ! h) @ [protocol @ '','' @ number_to_string bits @ '','' @ code @ [newline]]
         \<and> (\<forall>k. k \<noteq> h \<longrightarrow> serial_ports (snd (sendIRCommand protocol bits code ack s)) ! k = serial_ports s ! k)
         \<and> length (serial_ports (snd (sendIRCommand protocol bits code ack s))) = length (serial_ports s)
         \<and> (fst (sendIRCommand protocol bits code ack s) = Inr \<lparr>success = True, disconnected = False\<rparr>
              \<longleftrightarrow> ack = None)
         \<and> (\<forall>err. ack = Some err \<longrightarrow> fst (sendIRCommand protocol bits code ack s) = Inl (Error err))
         \<and> (0 \<le> bits \<longrightarrow> decimal_value (number_to_string bits) = nat bits)
         \<and> (ack = None \<longrightarrow>
               isOpen (snd (sendIRCommand protocol bits code ack s)) h
               \<and> error_log (snd (sendIRCommand protocol bits code ack s)) = error_log s)
         \<and> (\<forall>err. ack = Some err \<longrightarrow>
               \<not> isOpen (snd (sendIRCommand protocol bits code ack s)) h
               \<and> error_log (snd (sendIRCommand protocol bits code ack s)) =
                   error_log s @ [(case sp_role (serial_ports s ! h) of
                                     Receiver \<Rightarrow> ''Receiver port error: ''
                                   | Transmitter \<Rightarrow> ''Transmitter port error: '') @ err])"
proof -
  from assms(2) have l: "h < length (serial_ports s)" by (simp add: isOpen_def)
  note c = sendIRCommand_connected [OF assms(1,2)]
  have d: "0 \<le> bits \<longrightarrow> decimal_value (number_to_string bits) = nat bits"
    by (simp add: number_to_string_def decimal_value_nat_to_string)
  show ?thesis
  proof (cases ack)
    case None
    with l assms(2) d show ?thesis
      by (simp add: c nth_port_write)
  next
    case (Some err)
    with l d show ?thesis
      by (simp add: c port_fails_state nth_set_status nth_port_write isOpen_set_status)
  qed
qed

theorem send_writes_command_witness:
  "transmitterPort example_state = Some 1 \<and> isOpen example_state 1 \<and> \<bar>32 :: int\<bar> < 2 ^ 53
   \<and> sp_written (serial_ports (snd (sendIRCommand ''NEC'' 32 ''0x1'' None example_state)) ! 1)
       = [''NEC,32,0x1'' @ [newline]]
   \<and> sp_written (serial_ports (snd (sendIRCommand ''NEC'' 32 ''0x1'' None example_state)) ! 0) = []
   \<and> fst (sendIRCommand ''NEC'' 32 ''0x1'' None example_state) = Inr \<lparr>success = True, disconnected = False\<rparr>
   \<and> isOpen (snd (sendIRCommand ''NEC'' 32 ''0x1'' None example_state)) 1
   \<and> fst (sendIRCommand ''NEC'' 32 ''0x1'' (Some ''EIO'') example_state) = Inl (Error ''EIO'')
   \<and> \<not> isOpen (snd (sendIRCommand ''NEC'' 32 ''0x1'' (Some ''EIO'') example_state)) 1
   \<and> error_log (snd (sendIRCommand ''NEC'' 32 ''0x1'' (Some ''EIO'') example_state))
       = [''Transmitter port error: EIO'']
   \<and> decimal_value (number_to_string 32) = 32"
proof -
  have h: "transmitterPort example_state = Some 1" "isOpen example_state 1" "\<bar>32 :: int\<bar> < 2 ^ 53"
    by (simp_all add: example_state_def isOpen_def)
  have n: "number_to_string 32 = ''32''"
    by (simp add: number_to_string_def nat_to_string.simps)
  have z: "sp_written (serial_ports example_state ! 0) = []" "sp_written (serial_ports example_state ! 1) = []"
    "error_log example_state = []" "sp_role (serial_ports example_state ! 1) = Transmitter"
    by (simp_all add: example_state_def)
  from send_writes_command [OF h, of "''NEC''" "''0x1''" None]
    send_writes_command [OF h, of "''NEC''" "''0x1''" "Some ''EIO''"] h n z
  show ?thesis by simp
qed

subsection \<open>JSON text\<close>

lemma below_16:
  "(k::nat) < 16 \<Longrightarrow> k \<in> {0, 1, 2, 3, 4, 5, 6, 7, 8, 9, 10, 11, 12, 13, 14, 15}"
  by simp arith

lemma hex_value_hex_digit: "hex_value (hex_digit n) = Some (n mod 16)"
proof -
  have "n mod 16 < 16" by simp
  from below_16 [OF this] show ?thesis
    by (auto simp: hex_digit_def hex_value_def)
qed

lemma unescape_u_control:
  assumes "(of_char c :: nat) < 32"
  shows "unescape_u (CHR ''0'') (CHR ''0'') (hex_digit (of_char c div 16)) (hex_digit (of_char c mod 16)) = Some c"
proof -
  have "(of_char c :: nat) div 16 mod 16 = of_char c div 16" using assms by simp
  moreover have "16 * ((of_char c :: nat) div 16) + of_char c mod 16 = of_char c" by simp
  moreover have "hex_value (CHR ''0'') = Some 0" by (simp add: hex_value_def)
  ultimately show ?thesis
    by (simp add: unescape_u_def hex_value_hex_digit)
qed


lemma read_string_body_escape:
  "read_string_body (json_escape c @ R) = map_option (\<lambda>(str, r). (c # str, r)) (read_string_body R)"
  by (cases R) (auto simp: json_escape_def unescape_def unescape_u_control dquote_def backslash_def)

lemma read_string_body_quote: "read_string_body (dquote # R) = Some ([], R)"
  by (cases R) simp_all

lemma read_string_body_escaped:
  "read_string_body (concat (map json_escape str) @ dquote # R) = Some (str, R)"
  by (induction str) (simp_all add: read_string_body_quote read_string_body_escape)

lemma read_json_string: "read_json_string (json_string str @ R) = Some (str, R)"
  by (simp add: read_json_string_def json_string_def read_string_body_escaped)

lemma read_message_json_message: "read_message (json_message m) = Some m"
  by (simp add: read_message_def json_message_def expect_def read_json_string)

lemma hex_digit_printable: "32 \<le> (of_char (hex_digit n) :: nat)"
proof -
  have "n mod 16 < 16" by simp
  from below_16 [OF this] show ?thesis
    by (auto simp: hex_digit_def)
qed

lemma json_escape_printable: "x \<in> set (json_escape c) \<Longrightarrow> 32 \<le> (of_char x :: nat)"
  using hex_digit_printable
  by (auto simp: json_escape_def dquote_def backslash_def split: if_splits)

lemma json_string_printable: "x \<in> set (json_string str) \<Longrightarrow> 32 \<le> (of_char x :: nat)"
  by (auto simp: json_string_def dquote_def dest: json_escape_printable)

lemma json_message_printable: "x \<in> set (json_message m) \<Longrightarrow> 32 \<le> (of_char x :: nat)"
  by (auto simp: json_message_def dest: json_string_printable)

subsection \<open>Subscribers and frames\<close>

lemma res_write_fields [simp]:
  "receiverPort (res_write f c s) = receiverPort s"
  "transmitterPort (res_write f c s) = transmitterPort s"
  "connectedClients (res_write f c s) = connectedClients s"
  "serial_ports (res_write f c s) = serial_ports s"
  "error_log (res_write f c s) = error_log s"
  "length (responses (res_write f c s)) = length (responses s)"
  by (simp_all add: res_write_def)

lemma nth_res_write:
  "responses (res_write f c s) ! k =
     (if k = c \<and> c < length (responses s) \<and> sub_alive (responses s ! c)
      then (responses s ! c)\<lparr>sub_frames := sub_frames (responses s ! c) @ [f]\<rparr>
      else responses s ! k)"
  by (auto simp: res_write_def)

lemma fold_res_write_fields [simp]:
  "receiverPort (fold (res_write f) cs s) = receiverPort s"
  "transmitterPort (fold (res_write f) cs s) = transmitterPort s"
  "connectedClients (fold (res_write f) cs s) = connectedClients s"
  "serial_ports (fold (res_write f) cs s) = serial_ports s"
  "error_log (fold (res_write f) cs s) = error_log s"
  "length (responses (fold (res_write f) cs s)) = length (responses s)"
  by (induction cs arbitrary: s; simp)+

lemma nth_fold_res_write:
  assumes "distinct cs"
  shows "responses (fold (res_write f) cs s) ! k =
     (if k \<in> set cs \<and> k < length (responses s) \<and> sub_alive (responses s ! k)
      then (responses s ! k)\<lparr>sub_frames := sub_frames (responses s ! k) @ [f]\<rparr>
      else responses s ! k)"
  using assms
proof (induction cs arbitrary: s)
  case Nil
  then show ?case by simp
next
  case (Cons c cs)
  then have "distinct cs" and "c \<notin> set cs" by simp_all
  then show ?case
    using Cons.IH [of "res_write f c s"] by (auto simp: nth_res_write)
qed

lemma req_on_close_clients:
  "set (connectedClients (req_on_close c s)) = set (connectedClients s) - {c}"
  by (auto simp: req_on_close_def)


lemma fire_clients:
  "connectedClients (fire e s) =
     (case e of EventsRequest \<Rightarrow> connectedClients s @ [length (responses s)]
              | RequestClose res \<Rightarrow> filter (\<lambda>c. c \<noteq> res) (connectedClients s)
              | _ \<Rightarrow> connectedClients s)"
  by (cases e)
     (auto simp: connectToReceiver_def connectToTransmitter_def new_port_def close_port_def
        set_status_def port_opens_def port_fails_def receiver_on_open_def transmitter_on_open_def
        receiver_on_error_def transmitter_on_error_def console_error_def parser_on_data_def
        sendIRCommand_def port_write_def api_events_def keepAlive_def req_on_close_def Let_def
        split: option.splits role.splits)

lemma fire_responses_length:
  "length (responses (fire e s)) =
     (case e of EventsRequest \<Rightarrow> Suc (length (responses s)) | _ \<Rightarrow> length (responses s))"
  by (cases e)
     (auto simp: connectToReceiver_def connectToTransmitter_def new_port_def close_port_def
        set_status_def port_opens_def port_fails_def receiver_on_open_def transmitter_on_open_def
        receiver_on_error_def transmitter_on_error_def console_error_def parser_on_data_def
        sendIRCommand_def port_write_def api_events_def keepAlive_def req_on_close_def Let_def
        split: option.splits role.splits)

lemma reachable_clients:
  "reachable s \<Longrightarrow>
     distinct (connectedClients s) \<and> (\<forall>c\<in>set (connectedClients s). c < length (responses s))"
proof (induction rule: reachable.induct)
  case start
  then show ?case by (simp add: initial_state_def)
next
  case (step s e)
  then show ?case
    by (cases e) (auto simp del: fire.simps simp add: fire_clients fire_responses_length less_Suc_eq)
qed

text \<open>
  C3, as the program has it. When a line is broadcast, every subscriber in
  \<open>connectedClients\<close> whose socket is alive gets the frame appended, whatever the state of the
  other subscribers, and a subscriber whose socket is gone gets nothing. The broadcast
  leaves \<open>connectedClients\<close> as it was: a failed delivery removes nobody. A subscriber leaves
  the set when the \<open>close\<close> handler of its request runs. (No response is twice in
  \<open>connectedClients\<close> in any state the process reaches: lemma \<open>reachable_clients\<close>.)
\<close>

theorem publish_isolates_failure:
  assumes "distinct (connectedClients s)" and "has_marker line"
  shows "connectedClients (snd (parser_on_data now line s)) = connectedClients s
         \<and> length (responses (snd (parser_on_data now line s))) = length (responses s)
         \<and> (\<forall>c<length (responses s).
               responses (snd (parser_on_data now line s)) ! c =
                 (if c \<in> set (connectedClients s) \<and> sub_alive (responses s ! c)
                  then (responses s ! c)
                         \<lparr>sub_frames := sub_frames (responses s ! c) @ [sse_frame \<lparr>timestamp = now, data = line\<rparr>]\<rparr>
                  else responses s ! c))
         \<and> set (connectedClients (req_on_close c (snd (parser_on_data now line s))))
              = set (connectedClients s) - {c}"
  using assms
  by (simp add: parser_on_data_def Let_def nth_fold_res_write req_on_close_clients)

theorem publish_isolates_failure_witness:
  "distinct (connectedClients example_state) \<and> has_marker ''Decoded NEC 32 0x1''
   \<and> connectedClients (snd (parser_on_data ''10:00:00'' ''Decoded NEC 32 0x1'' example_state)) = [0, 1]
   \<and> responses (snd (parser_on_data ''10:00:00'' ''Decoded NEC 32 0x1'' example_state)) ! 0
        = \<lparr>sub_alive = False, sub_frames = [], sub_keepalive = Some 30000\<rparr>
   \<and> responses (snd (parser_on_data ''10:00:00'' ''Decoded NEC 32 0x1'' example_state)) ! 1
        = \<lparr>sub_alive = True,
           sub_frames = [sse_frame \<lparr>timestamp = ''10:00:00'', data = ''Decoded NEC 32 0x1''\<rparr>],
           sub_keepalive = Some 30000\<rparr>
   \<and> set (connectedClients
             (req_on_close 0 (snd (parser_on_data ''10:00:00'' ''Decoded NEC 32 0x1'' example_state))))
        = {1}"
proof -
  have h: "distinct (connectedClients example_state)" "has_marker ''Decoded NEC 32 0x1''"
    by (simp_all add: example_state_def has_marker_def)
  have e: "connectedClients example_state = [0, 1]" "length (responses example_state) = 2"
    "responses example_state ! 0 = \<lparr>sub_alive = False, sub_frames = [], sub_keepalive = Some 30000\<rparr>"
    "responses example_state ! 1 = \<lparr>sub_alive = True, sub_frames = [], sub_keepalive = Some 30000\<rparr>"
    by (simp_all add: example_state_def)
  note t = publish_isolates_failure [OF h, of "''10:00:00''" 0]
  from t e have a: "connectedClients (snd (parser_on_data ''10:00:00'' ''Decoded NEC 32 0x1'' example_state)) = [0, 1]"
    by simp
  from t e have b: "responses (snd (parser_on_data ''10:00:00'' ''Decoded NEC 32 0x1'' example_state)) ! 0
        = \<lparr>sub_alive = False, sub_frames = [], sub_keepalive = Some 30000\<rparr>"
    by simp
  from t e have c: "responses (snd (parser_on_data ''10:00:00'' ''Decoded NEC 32 0x1'' example_state)) ! 1
        = \<lparr>sub_alive = True,
           sub_frames = [sse_frame \<lparr>timestamp = ''10:00:00'', data = ''Decoded NEC 32 0x1''\<rparr>],
           sub_keepalive = Some 30000\<rparr>"
    by simp
  from t e have d: "set (connectedClients
             (req_on_close 0 (snd (parser_on_data ''10:00:00'' ''Decoded NEC 32 0x1'' example_state))))
        = {1}"
    by auto
  from h a b c d show ?thesis by simp
qed

text \<open>
  C3, as the claim has it, fails: in the example state the first subscriber's socket is
  gone; after a broadcast it has received nothing, the second subscriber has its frame,
  and the first is still in \<open>connectedClients\<close>.
\<close>

theorem publish_keeps_failing_subscriber:
  "\<not> sub_alive (responses example_state ! 0)
   \<and> connectedClients example_state = [0, 1]
   \<and> connectedClients (snd (parser_on_data ''10:00:00'' ''Decoded NEC 32 0x1'' example_state)) = [0, 1]
   \<and> sub_frames (responses (snd (parser_on_data ''10:00:00'' ''Decoded NEC 32 0x1'' example_state)) ! 0) = []
   \<and> sub_frames (responses (snd (parser_on_data ''10:00:00'' ''Decoded NEC 32 0x1'' example_state)) ! 1)
        = [sse_frame \<lparr>timestamp = ''10:00:00'', data = ''Decoded NEC 32 0x1''\<rparr>]"
  by (simp add: example_state_def parser_on_data_def has_marker_def res_write_def Let_def)

text \<open>
  C7. The frame written for a broadcast line is \<open>data: \<close>, the JSON object with the
  properties \<open>timestamp\<close> and \<open>data\<close> in this order, and two newlines; a reader of the object
  gets the timestamp and the line back, and the text before the two newlines has no control
  character, so no line break. This is the frame a live subscriber receives. The timer of a
  subscriber writes exactly \<open>: keepalive\<close> and two newlines, to that subscriber only, and is
  started with a period of 30 seconds when the subscriber is registered, the other
  subscribers being left as they were.
\<close>

theorem event_stream_frames:
  "sse_frame \<lparr>timestamp = now, data = line\<rparr> =
      ''data: '' @ ''{'' @ json_string ''timestamp'' @ '':'' @ json_string now @ '','' @
        json_string ''data'' @ '':'' @ json_string line @ ''}'' @ [newline, newline]
   \<and> read_message (json_message m) = Some m
   \<and> (\<forall>x\<in>set (''data: '' @ json_message m). 32 \<le> (of_char x :: nat))
   \<and> (distinct (connectedClients s) \<and> c \<in> set (connectedClients s) \<and> c < length (responses s)
        \<and> sub_alive (responses s ! c) \<and> has_marker line
       \<longrightarrow> sub_frames (responses (snd (parser_on_data now line s)) ! c) =
             sub_frames (responses s ! c) @ [sse_frame \<lparr>timestamp = now, data = line\<rparr>])
   \<and> keepalive_frame = '': keepalive'' @ [newline, newline]
   \<and> (res < length (responses s) \<and> sub_alive (responses s ! res)
       \<longrightarrow> sub_frames (responses (keepAlive res s) ! res) = sub_frames (responses s ! res) @ [keepalive_frame])
   \<and> (\<forall>k. k \<noteq> res \<longrightarrow> responses (keepAlive res s) ! k = responses s ! k)
   \<and> sub_keepalive (responses (snd (api_events s)) ! fst (api_events s)) = Some (30 * 1000)
   \<and> (\<forall>k<length (responses s). responses (snd (api_events s)) ! k = responses s ! k)"
proof -
  have a: "sse_frame \<lparr>timestamp = now, data = line\<rparr> =
      ''data: '' @ ''{'' @ json_string ''timestamp'' @ '':'' @ json_string now @ '','' @
        json_string ''data'' @ '':'' @ json_string line @ ''}'' @ [newline, newline]"
    by (simp add: sse_frame_def json_message_def)
  have b: "\<forall>x\<in>set (''data: '' @ json_message m). 32 \<le> (of_char x :: nat)"
    by (auto dest: json_message_printable)
  have c: "sub_frames (responses (snd (parser_on_data now line s)) ! c) =
             sub_frames (responses s ! c) @ [sse_frame \<lparr>timestamp = now, data = line\<rparr>]"
    if "distinct (connectedClients s) \<and> c \<in> set (connectedClients s) \<and> c < length (responses s)
        \<and> sub_alive (responses s ! c) \<and> has_marker line"
    using that by (simp add: parser_on_data_def Let_def nth_fold_res_write)
  have d: "keepalive_frame = '': keepalive'' @ [newline, newline]"
    by (simp add: keepalive_frame_def)
  have e: "sub_frames (responses (keepAlive res s) ! res) = sub_frames (responses s ! res) @ [keepalive_frame]"
    if "res < length (responses s) \<and> sub_alive (responses s ! res)"
    using that by (simp add: keepAlive_def nth_res_write)
  have f: "\<forall>k. k \<noteq> res \<longrightarrow> responses (keepAlive res s) ! k = responses s ! k"
    by (simp add: keepAlive_def nth_res_write)
  have g: "sub_keepalive (responses (snd (api_events s)) ! fst (api_events s)) = Some (30 * 1000)"
    by (simp add: api_events_def Let_def)
  have h: "\<forall>k<length (responses s). responses (snd (api_events s)) ! k = responses s ! k"
    by (simp add: api_events_def Let_def nth_append)
  from a read_message_json_message [of m] b c d e f g h show ?thesis by blast
qed

theorem event_stream_frames_witness:
  "distinct (connectedClients example_state) \<and> 1 \<in> set (connectedClients example_state)
   \<and> 1 < length (responses example_state) \<and> sub_alive (responses example_state ! 1)
   \<and> has_marker ''Ready to receive''
   \<and> sub_frames (responses (snd (parser_on_data ''10:00:00'' ''Ready to receive'' example_state)) ! 1)
        = [''data: {'' @ [dquote] @ ''timestamp'' @ [dquote] @ '':'' @ [dquote] @ ''10:00:00'' @ [dquote]
             @ '','' @ [dquote] @ ''data'' @ [dquote] @ '':'' @ [dquote] @ ''Ready to receive'' @ [dquote]
             @ ''}'' @ [newline, newline]]
   \<and> sub_frames (responses (keepAlive 1 example_state) ! 1) = ['': keepalive'' @ [newline, newline]]
   \<and> sub_frames (responses (keepAlive 1 example_state) ! 0) = []
   \<and> responses (snd (api_events example_state)) ! 1 = responses example_state ! 1"
proof -
  have h: "distinct (connectedClients example_state) \<and> 1 \<in> set (connectedClients example_state)
      \<and> 1 < length (responses example_state) \<and> sub_alive (responses example_state ! 1)
      \<and> has_marker ''Ready to receive''"
    by (simp add: example_state_def has_marker_def)
  have k: "1 < length (responses example_state) \<and> sub_alive (responses example_state ! 1)"
    using h by simp
  have z: "sub_frames (responses example_state ! 1) = []" "sub_frames (responses example_state ! 0) = []"
    by (simp_all add: example_state_def)
  have j: "json_string ''timestamp'' = [dquote] @ ''timestamp'' @ [dquote]"
    "json_string ''10:00:00'' = [dquote] @ ''10:00:00'' @ [dquote]"
    "json_string ''data'' = [dquote] @ ''data'' @ [dquote]"
    "json_string ''Ready to receive'' = [dquote] @ ''Ready to receive'' @ [dquote]"
    by (simp_all add: json_string_def json_escape_def dquote_def backslash_def)
  note t = event_stream_frames [of "''10:00:00''" "''Ready to receive''" _ example_state 1 1]
  from t h z have a: "sub_frames (responses (snd (parser_on_data ''10:00:00'' ''Ready to receive'' example_state)) ! 1)
        = [sse_frame \<lparr>timestamp = ''10:00:00'', data = ''Ready to receive''\<rparr>]"
    by simp
  from t have b: "sse_frame \<lparr>timestamp = ''10:00:00'', data = ''Ready to receive''\<rparr> =
      ''data: {'' @ [dquote] @ ''timestamp'' @ [dquote] @ '':'' @ [dquote] @ ''10:00:00'' @ [dquote]
             @ '','' @ [dquote] @ ''data'' @ [dquote] @ '':'' @ [dquote] @ ''Ready to receive'' @ [dquote]
             @ ''}'' @ [newline, newline]"
    by (simp add: j)
  from t k z have c: "sub_frames (responses (keepAlive 1 example_state) ! 1) = ['': keepalive'' @ [newline, newline]]"
    by simp
  from t z have d: "sub_frames (responses (keepAlive 1 example_state) ! 0) = []"
    by simp
  have "1 < length (responses example_state)" using h by simp
  with t have e: "responses (snd (api_events example_state)) ! 1 = responses example_state ! 1"
    by blast
  from h a b c d e show ?thesis by simp
qed

subsection \<open>Startup\<close>

lemma reconnect_receiver_fails:
  assumes "cfg_receiverPort cfg = Some p" and "p \<noteq> []" and "dev p = Some msg"
  shows "reconnect_receiver dev cfg s =
           ([Receiver], console_error (''Failed to reconnect receiver: '' @ msg) (failed_connect Receiver p msg s))"
  using assms by (simp add: reconnect_receiver_def falsy_def await_receiver_fails)

lemma reconnect_transmitter_fails:
  assumes "cfg_transmitterPort cfg = Some p" and "p \<noteq> []" and "dev p = Some msg"
  shows "reconnect_transmitter dev cfg s =
           ([Transmitter], console_error (''Failed to reconnect transmitter: '' @ msg) (failed_connect Transmitter p msg s))"
  using assms by (simp add: reconnect_transmitter_def falsy_def await_transmitter_fails)

lemma reconnect_receiver_opens:
  assumes "cfg_receiverPort cfg = Some p" and "p \<noteq> []" and "dev p = None"
  shows "reconnect_receiver dev cfg s = ([Receiver], opened_connect Receiver p s)"
  using assms by (simp add: reconnect_receiver_def falsy_def await_receiver_opens)

lemma reconnect_transmitter_opens:
  assumes "cfg_transmitterPort cfg = Some p" and "p \<noteq> []" and "dev p = None"
  shows "reconnect_transmitter dev cfg s = ([Transmitter], opened_connect Transmitter p s)"
  using assms by (simp add: reconnect_transmitter_def falsy_def await_transmitter_opens)

lemma reconnect_attempts:
  "fst (reconnect_receiver dev cfg s) = (if falsy (cfg_receiverPort cfg) then [] else [Receiver])"
  "fst (reconnect_transmitter dev cfg s) = (if falsy (cfg_transmitterPort cfg) then [] else [Transmitter])"
  by (auto simp: reconnect_receiver_def reconnect_transmitter_def split: prod.splits sum.splits js_error.splits)

lemma bootstrap_steps:
  "fst (bootstrap dev cfg s) =
     fst (reconnect_receiver dev cfg s) @ fst (reconnect_transmitter dev cfg (snd (reconnect_receiver dev cfg s)))"
  "snd (bootstrap dev cfg s) = snd (reconnect_transmitter dev cfg (snd (reconnect_receiver dev cfg s)))"
  by (simp_all add: bootstrap_def split: prod.splits)

lemma opened_connect_handle:
  "handle_of r (opened_connect r p s) = Some (length (serial_ports s))"
  "sp_path (serial_ports (opened_connect r p s) ! length (serial_ports s)) = p"
  by (cases r; simp add: opened_connect_def Let_def handle_of_def nth_set_status nth_append)+

lemma opened_connect_log [simp]: "error_log (opened_connect r p s) = error_log s"
  by (cases r) (simp_all add: opened_connect_def Let_def)

lemma opened_connect_new_role:
  "sp_role (serial_ports (opened_connect r p s) ! length (serial_ports s)) = r"
  by (simp add: opened_connect_nth)

lemma reconnect_transmitter_keeps:
  "receiverPort (snd (reconnect_transmitter dev cfg s)) = receiverPort s"
  "isOpen s k \<Longrightarrow> transmitterPort s \<noteq> Some k \<Longrightarrow> isOpen (snd (reconnect_transmitter dev cfg s)) k"
proof -
  consider "falsy (cfg_transmitterPort cfg)"
    | q where "cfg_transmitterPort cfg = Some q" "q \<noteq> []" "dev q = None"
    | q msg where "cfg_transmitterPort cfg = Some q" "q \<noteq> []" "dev q = Some msg"
    by (cases "cfg_transmitterPort cfg"; cases "dev (the (cfg_transmitterPort cfg))")
       (auto simp: falsy_def)
  note cases = this
  show "receiverPort (snd (reconnect_transmitter dev cfg s)) = receiverPort s"
  proof (cases rule: cases)
    case 1
    then show ?thesis by (simp add: reconnect_transmitter_def)
  next
    case 2
    with opened_connect_handle_of [of Receiver Transmitter q s]
    show ?thesis by (simp add: reconnect_transmitter_opens [of cfg q dev] handle_of_def)
  next
    case 3
    then show ?thesis by (simp add: reconnect_transmitter_fails [of cfg q dev msg])
  qed
  show "isOpen (snd (reconnect_transmitter dev cfg s)) k"
    if "isOpen s k" and "transmitterPort s \<noteq> Some k"
  proof (cases rule: cases)
    case 1
    with that show ?thesis by (simp add: reconnect_transmitter_def)
  next
    case 2
    with that show ?thesis
      by (simp add: reconnect_transmitter_opens [of cfg q dev] isOpen_opened_connect handle_of_def)
  next
    case 3
    with that show ?thesis
      by (simp add: reconnect_transmitter_fails [of cfg q dev msg] isOpen_failed_connect handle_of_def)
  qed
qed

text \<open>
  C8. At startup a reconnect is attempted for each role that has a saved path, the receiver
  first, and whether the transmitter is attempted does not depend on how the receiver's
  attempt ended. A failed attempt ends in the \<open>catch\<close>: two lines are logged, the role's
  variable is what it was, the port it referred to is closed and no port has been opened.
  An attempt whose device opens connects the role: its variable refers to a new, open port
  on the saved path, and nothing is logged. A role without a saved path is left alone. The
  transmitter's attempt runs on the state the receiver's attempt left and, where the
  transmitter's variable does not already refer to it, leaves the receiver's new port open.
  No error leaves the callback, which runs when the server is already listening.
\<close>

theorem startup_reconnect:
  "fst (bootstrap dev cfg s) =
      (if falsy (cfg_receiverPort cfg) then [] else [Receiver]) @
      (if falsy (cfg_transmitterPort cfg) then [] else [Transmitter])
   \<and> snd (bootstrap dev cfg s) = snd (reconnect_transmitter dev cfg (snd (reconnect_receiver dev cfg s)))
   \<and> (cfg_receiverPort cfg = Some p \<and> p \<noteq> [] \<and> dev p = Some msg \<longrightarrow>
         receiverPort (snd (reconnect_receiver dev cfg s)) = receiverPort s
         \<and> transmitterPort (snd (reconnect_receiver dev cfg s)) = transmitterPort s
         \<and> error_log (snd (reconnect_receiver dev cfg s)) =
             error_log s @ [''Receiver port error: '' @ msg, ''Failed to reconnect receiver: '' @ msg]
         \<and> (\<forall>h. isOpen (snd (reconnect_receiver dev cfg s)) h = (isOpen s h \<and> receiverPort s \<noteq> Some h)))
   \<and> (cfg_transmitterPort cfg = Some q \<and> q \<noteq> [] \<and> dev q = Some msg' \<longrightarrow>
         receiverPort (snd (reconnect_transmitter dev cfg s)) = receiverPort s
         \<and> transmitterPort (snd (reconnect_transmitter dev cfg s)) = transmitterPort s
         \<and> error_log (snd (reconnect_transmitter dev cfg s)) =
             error_log s @ [''Transmitter port error: '' @ msg', ''Failed to reconnect transmitter: '' @ msg']
         \<and> (\<forall>h. isOpen (snd (reconnect_transmitter dev cfg s)) h = (isOpen s h \<and> transmitterPort s \<noteq> Some h)))
   \<and> (cfg_transmitterPort cfg = Some q \<and> q \<noteq> [] \<and> dev q = None \<longrightarrow>
         (\<exists>h. transmitterPort (snd (bootstrap dev cfg s)) = Some h
              \<and> isOpen (snd (bootstrap dev cfg s)) h
              \<and> sp_path (serial_ports (snd (bootstrap dev cfg s)) ! h) = q))
   \<and> (falsy (cfg_transmitterPort cfg) \<longrightarrow>
         snd (bootstrap dev cfg s) = snd (reconnect_receiver dev cfg s))
   \<and> (cfg_receiverPort cfg = Some p \<and> p \<noteq> [] \<and> dev p = None \<longrightarrow>
         receiverPort (snd (reconnect_receiver dev cfg s)) = Some (length (serial_ports s))
         \<and> isOpen (snd (reconnect_receiver dev cfg s)) (length (serial_ports s))
         \<and> sp_path (serial_ports (snd (reconnect_receiver dev cfg s)) ! length (serial_ports s)) = p
         \<and> sp_role (serial_ports (snd (reconnect_receiver dev cfg s)) ! length (serial_ports s)) = Receiver
         \<and> transmitterPort (snd (reconnect_receiver dev cfg s)) = transmitterPort s
         \<and> error_log (snd (reconnect_receiver dev cfg s)) = error_log s)
   \<and> (cfg_receiverPort cfg = Some p \<and> p \<noteq> [] \<and> dev p = None
        \<and> transmitterPort s \<noteq> Some (length (serial_ports s)) \<longrightarrow>
         receiverPort (snd (bootstrap dev cfg s)) = Some (length (serial_ports s))
         \<and> isOpen (snd (bootstrap dev cfg s)) (length (serial_ports s)))
   \<and> (falsy (cfg_receiverPort cfg) \<longrightarrow> reconnect_receiver dev cfg s = ([], s))
   \<and> (cfg_transmitterPort cfg = Some q \<and> q \<noteq> [] \<and> dev q = None \<longrightarrow>
         transmitterPort (snd (reconnect_transmitter dev cfg s)) = Some (length (serial_ports s))
         \<and> isOpen (snd (reconnect_transmitter dev cfg s)) (length (serial_ports s))
         \<and> sp_path (serial_ports (snd (reconnect_transmitter dev cfg s)) ! length (serial_ports s)) = q
         \<and> sp_role (serial_ports (snd (reconnect_transmitter dev cfg s)) ! length (serial_ports s)) = Transmitter
         \<and> receiverPort (snd (reconnect_transmitter dev cfg s)) = receiverPort s
         \<and> error_log (snd (reconnect_transmitter dev cfg s)) = error_log s)"
proof -
  have a: "fst (bootstrap dev cfg s) =
      (if falsy (cfg_receiverPort cfg) then [] else [Receiver]) @
      (if falsy (cfg_transmitterPort cfg) then [] else [Transmitter])"
    by (simp only: bootstrap_steps reconnect_attempts)
  have b: "snd (bootstrap dev cfg s) = snd (reconnect_transmitter dev cfg (snd (reconnect_receiver dev cfg s)))"
    by (rule bootstrap_steps)
  have c: "receiverPort (snd (reconnect_receiver dev cfg s)) = receiverPort s
         \<and> transmitterPort (snd (reconnect_receiver dev cfg s)) = transmitterPort s
         \<and> error_log (snd (reconnect_receiver dev cfg s)) =
             error_log s @ [''Receiver port error: '' @ msg, ''Failed to reconnect receiver: '' @ msg]
         \<and> (\<forall>h. isOpen (snd (reconnect_receiver dev cfg s)) h = (isOpen s h \<and> receiverPort s \<noteq> Some h))"
    if "cfg_receiverPort cfg = Some p \<and> p \<noteq> [] \<and> dev p = Some msg"
    using that
    by (simp add: reconnect_receiver_fails [of cfg p dev msg] isOpen_failed_connect handle_of_def)
  have d: "receiverPort (snd (reconnect_transmitter dev cfg s)) = receiverPort s
         \<and> transmitterPort (snd (reconnect_transmitter dev cfg s)) = transmitterPort s
         \<and> error_log (snd (reconnect_transmitter dev cfg s)) =
             error_log s @ [''Transmitter port error: '' @ msg', ''Failed to reconnect transmitter: '' @ msg']
         \<and> (\<forall>h. isOpen (snd (reconnect_transmitter dev cfg s)) h = (isOpen s h \<and> transmitterPort s \<noteq> Some h))"
    if "cfg_transmitterPort cfg = Some q \<and> q \<noteq> [] \<and> dev q = Some msg'"
    using that
    by (simp add: reconnect_transmitter_fails [of cfg q dev msg'] isOpen_failed_connect handle_of_def)
  have e: "\<exists>h. transmitterPort (snd (bootstrap dev cfg s)) = Some h
              \<and> isOpen (snd (bootstrap dev cfg s)) h
              \<and> sp_path (serial_ports (snd (bootstrap dev cfg s)) ! h) = q"
    if "cfg_transmitterPort cfg = Some q \<and> q \<noteq> [] \<and> dev q = None"
  proof -
    let ?s1 = "snd (reconnect_receiver dev cfg s)"
    from that have "snd (bootstrap dev cfg s) = opened_connect Transmitter q ?s1"
      by (simp add: b reconnect_transmitter_opens [of cfg q dev])
    moreover have "handle_of Transmitter (opened_connect Transmitter q ?s1) = Some (length (serial_ports ?s1))"
      by (rule opened_connect_handle)
    moreover have "isOpen (opened_connect Transmitter q ?s1) (length (serial_ports ?s1))"
      by (simp add: isOpen_opened_connect)
    moreover have "sp_path (serial_ports (opened_connect Transmitter q ?s1) ! length (serial_ports ?s1)) = q"
      by (rule opened_connect_handle)
    ultimately show ?thesis by (simp add: handle_of_def)
  qed
  have f: "snd (bootstrap dev cfg s) = snd (reconnect_receiver dev cfg s)" if "falsy (cfg_transmitterPort cfg)"
    using that by (simp add: b reconnect_transmitter_def)
  have g: "receiverPort (snd (reconnect_receiver dev cfg s)) = Some (length (serial_ports s))
         \<and> isOpen (snd (reconnect_receiver dev cfg s)) (length (serial_ports s))
         \<and> sp_path (serial_ports (snd (reconnect_receiver dev cfg s)) ! length (serial_ports s)) = p
         \<and> sp_role (serial_ports (snd (reconnect_receiver dev cfg s)) ! length (serial_ports s)) = Receiver
         \<and> transmitterPort (snd (reconnect_receiver dev cfg s)) = transmitterPort s
         \<and> error_log (snd (reconnect_receiver dev cfg s)) = error_log s"
    if "cfg_receiverPort cfg = Some p \<and> p \<noteq> [] \<and> dev p = None"
    using that opened_connect_handle_of [of Receiver Receiver p s]
      opened_connect_handle_of [of Transmitter Receiver p s]
    by (simp add: reconnect_receiver_opens [of cfg p dev] isOpen_opened_connect
        opened_connect_handle opened_connect_new_role handle_of_def)
  have h: "receiverPort (snd (bootstrap dev cfg s)) = Some (length (serial_ports s))
         \<and> isOpen (snd (bootstrap dev cfg s)) (length (serial_ports s))"
    if "cfg_receiverPort cfg = Some p \<and> p \<noteq> [] \<and> dev p = None
        \<and> transmitterPort s \<noteq> Some (length (serial_ports s))"
  proof -
    let ?s1 = "snd (reconnect_receiver dev cfg s)"
    from that g have 1: "receiverPort ?s1 = Some (length (serial_ports s))"
      and 2: "isOpen ?s1 (length (serial_ports s))"
      and 3: "transmitterPort ?s1 \<noteq> Some (length (serial_ports s))"
      by simp_all
    from reconnect_transmitter_keeps(1) [of dev cfg ?s1] reconnect_transmitter_keeps(2) [OF 2 3, of dev cfg] 1
    show ?thesis by (simp add: b)
  qed
  have i: "reconnect_receiver dev cfg s = ([], s)" if "falsy (cfg_receiverPort cfg)"
    using that by (simp add: reconnect_receiver_def)
  have j: "transmitterPort (snd (reconnect_transmitter dev cfg s)) = Some (length (serial_ports s))
         \<and> isOpen (snd (reconnect_transmitter dev cfg s)) (length (serial_ports s))
         \<and> sp_path (serial_ports (snd (reconnect_transmitter dev cfg s)) ! length (serial_ports s)) = q
         \<and> sp_role (serial_ports (snd (reconnect_transmitter dev cfg s)) ! length (serial_ports s)) = Transmitter
         \<and> receiverPort (snd (reconnect_transmitter dev cfg s)) = receiverPort s
         \<and> error_log (snd (reconnect_transmitter dev cfg s)) = error_log s"
    if "cfg_transmitterPort cfg = Some q \<and> q \<noteq> [] \<and> dev q = None"
    using that opened_connect_handle_of [of Transmitter Transmitter q s]
      opened_connect_handle_of [of Receiver Transmitter q s]
    by (simp add: reconnect_transmitter_opens [of cfg q dev] isOpen_opened_connect
        opened_connect_handle opened_connect_new_role handle_of_def)
  from a b c d e f g h i j show ?thesis by blast
qed


theorem startup_reconnect_witness:
  "cfg_receiverPort \<lparr>cfg_receiverPort = Some ''/dev/ttyUSB0'', cfg_transmitterPort = None\<rparr> = Some ''/dev/ttyUSB0''
   \<and> ''/dev/ttyUSB0'' \<noteq> []
   \<and> falsy (cfg_transmitterPort \<lparr>cfg_receiverPort = Some ''/dev/ttyUSB0'', cfg_transmitterPort = None\<rparr>)
   \<and> bootstrap (\<lambda>p. Some ''No such file or directory'')
        \<lparr>cfg_receiverPort = Some ''/dev/ttyUSB0'', cfg_transmitterPort = None\<rparr> initial_state
      = ([Receiver],
         \<lparr>receiverPort = None, transmitterPort = None, connectedClients = [],
          serial_ports =
            [\<lparr>sp_path = ''/dev/ttyUSB0'', sp_role = Receiver, sp_status = Shut, sp_written = []\<rparr>],
          responses = [],
          error_log = [''Receiver port error: No such file or directory'',
                       ''Failed to reconnect receiver: No such file or directory'']\<rparr>)
   \<and> fst (bootstrap (\<lambda>p. if p = ''/dev/ttyUSB0'' then Some ''No such file or directory'' else None)
        \<lparr>cfg_receiverPort = Some ''/dev/ttyUSB0'', cfg_transmitterPort = Some ''/dev/ttyACM0''\<rparr> initial_state)
      = [Receiver, Transmitter]
   \<and> transmitterPort (snd (bootstrap (\<lambda>p. if p = ''/dev/ttyUSB0'' then Some ''No such file or directory'' else None)
        \<lparr>cfg_receiverPort = Some ''/dev/ttyUSB0'', cfg_transmitterPort = Some ''/dev/ttyACM0''\<rparr> initial_state))
      = Some 1
   \<and> isOpen (snd (bootstrap (\<lambda>p. if p = ''/dev/ttyUSB0'' then Some ''No such file or directory'' else None)
        \<lparr>cfg_receiverPort = Some ''/dev/ttyUSB0'', cfg_transmitterPort = Some ''/dev/ttyACM0''\<rparr> initial_state)) 1
   \<and> error_log (snd (reconnect_transmitter (\<lambda>p. Some ''Access denied'')
        \<lparr>cfg_receiverPort = None, cfg_transmitterPort = Some ''/dev/ttyACM0''\<rparr> initial_state))
      = [''Transmitter port error: Access denied'', ''Failed to reconnect transmitter: Access denied'']
   \<and> reconnect_receiver (\<lambda>p. Some ''Access denied'')
        \<lparr>cfg_receiverPort = None, cfg_transmitterPort = Some ''/dev/ttyACM0''\<rparr> initial_state
      = ([], initial_state)
   \<and> receiverPort (snd (bootstrap (\<lambda>p. None)
        \<lparr>cfg_receiverPort = Some ''/dev/ttyUSB0'', cfg_transmitterPort = Some ''/dev/ttyACM0''\<rparr> initial_state))
      = Some 0
   \<and> isOpen (snd (bootstrap (\<lambda>p. None)
        \<lparr>cfg_receiverPort = Some ''/dev/ttyUSB0'', cfg_transmitterPort = Some ''/dev/ttyACM0''\<rparr> initial_state)) 0
   \<and> sp_path (serial_ports (snd (reconnect_receiver (\<lambda>p. None)
        \<lparr>cfg_receiverPort = Some ''/dev/ttyUSB0'', cfg_transmitterPort = Some ''/dev/ttyACM0''\<rparr> initial_state)) ! 0)
      = ''/dev/ttyUSB0''
   \<and> transmitterPort (snd (reconnect_transmitter (\<lambda>p. None)
        \<lparr>cfg_receiverPort = Some ''/dev/ttyUSB0'', cfg_transmitterPort = Some ''/dev/ttyACM0''\<rparr> initial_state))
      = Some 0"
proof -
  let ?cfg1 = "\<lparr>cfg_receiverPort = Some ''/dev/ttyUSB0'', cfg_transmitterPort = None\<rparr>"
  let ?dev1 = "\<lambda>p :: string. Some ''No such file or directory''"
  let ?cfg2 = "\<lparr>cfg_receiverPort = Some ''/dev/ttyUSB0'', cfg_transmitterPort = Some ''/dev/ttyACM0''\<rparr>"
  let ?dev2 = "\<lambda>p. if p = ''/dev/ttyUSB0'' then Some ''No such file or directory'' else None"
  let ?cfg3 = "\<lparr>cfg_receiverPort = None, cfg_transmitterPort = Some ''/dev/ttyACM0''\<rparr>"
  let ?dev3 = "\<lambda>p :: string. Some ''Access denied''"
  have h: "cfg_receiverPort ?cfg1 = Some ''/dev/ttyUSB0''" "''/dev/ttyUSB0'' \<noteq> []"
    "falsy (cfg_transmitterPort ?cfg1)"
    by (simp_all add: falsy_def)
  note t1 = startup_reconnect [of ?dev1 ?cfg1 initial_state "''/dev/ttyUSB0''" "''No such file or directory''"]
  note fails = t1 [THEN conjunct2, THEN conjunct2, THEN conjunct1]
  note skips = t1 [THEN conjunct2, THEN conjunct2, THEN conjunct2, THEN conjunct2, THEN conjunct2]
  from skips h have s1: "snd (bootstrap ?dev1 ?cfg1 initial_state) = snd (reconnect_receiver ?dev1 ?cfg1 initial_state)"
    by simp
  from fails have q: "receiverPort (snd (reconnect_receiver ?dev1 ?cfg1 initial_state)) = receiverPort initial_state"
    "error_log (snd (reconnect_receiver ?dev1 ?cfg1 initial_state)) =
       error_log initial_state @ [''Receiver port error: No such file or directory'',
                                  ''Failed to reconnect receiver: No such file or directory'']"
    by simp_all
  have i: "receiverPort initial_state = None" "error_log initial_state = []"
    by (simp_all add: initial_state_def)
  from q i s1 have r1: "receiverPort (snd (bootstrap ?dev1 ?cfg1 initial_state)) = None"
    and e1: "error_log (snd (bootstrap ?dev1 ?cfg1 initial_state)) =
          [''Receiver port error: No such file or directory'',
           ''Failed to reconnect receiver: No such file or directory'']"
    by simp_all
  have a: "bootstrap ?dev1 ?cfg1 initial_state
      = ([Receiver],
         \<lparr>receiverPort = None, transmitterPort = None, connectedClients = [],
          serial_ports =
            [\<lparr>sp_path = ''/dev/ttyUSB0'', sp_role = Receiver, sp_status = Shut, sp_written = []\<rparr>],
          responses = [],
          error_log = [''Receiver port error: No such file or directory'',
                       ''Failed to reconnect receiver: No such file or directory'']\<rparr>)"
    by (simp add: bootstrap_def reconnect_receiver_def reconnect_transmitter_def falsy_def
        await_connectToReceiver_def connectToReceiver_def new_port_def port_fails_def
        receiver_on_error_def console_error_def set_status_def initial_state_def)
  note t2 = startup_reconnect [of ?dev2 ?cfg2 initial_state "''/dev/ttyUSB0''" "''No such file or directory''"
      "''/dev/ttyACM0''"]
  from t2 have b: "fst (bootstrap ?dev2 ?cfg2 initial_state) = [Receiver, Transmitter]"
    by (simp add: falsy_def)
  have l: "length (serial_ports (snd (bootstrap ?dev2 ?cfg2 initial_state))) = 2"
    by (simp add: bootstrap_def reconnect_receiver_def reconnect_transmitter_def falsy_def
        await_connectToReceiver_def connectToReceiver_def new_port_def port_fails_def
        await_connectToTransmitter_def connectToTransmitter_def port_opens_def transmitter_on_open_def
        receiver_on_error_def console_error_def set_status_def initial_state_def)
  have c: "transmitterPort (snd (bootstrap ?dev2 ?cfg2 initial_state)) = Some 1"
    by (simp add: bootstrap_def reconnect_receiver_def reconnect_transmitter_def falsy_def
        await_connectToReceiver_def connectToReceiver_def new_port_def port_fails_def
        await_connectToTransmitter_def connectToTransmitter_def port_opens_def transmitter_on_open_def
        receiver_on_error_def console_error_def set_status_def initial_state_def)
  from t2 c have d: "isOpen (snd (bootstrap ?dev2 ?cfg2 initial_state)) 1"
    by auto
  note t3 = startup_reconnect [of ?dev3 ?cfg3 initial_state _ _ "''/dev/ttyACM0''" "''Access denied''"]
  from t3 have e: "error_log (snd (reconnect_transmitter ?dev3 ?cfg3 initial_state))
      = [''Transmitter port error: Access denied'', ''Failed to reconnect transmitter: Access denied'']"
    by (simp add: initial_state_def)
  from t3 [THEN conjunct2, THEN conjunct2, THEN conjunct2, THEN conjunct2, THEN conjunct2,
      THEN conjunct2, THEN conjunct2, THEN conjunct2, THEN conjunct1]
  have f: "reconnect_receiver ?dev3 ?cfg3 initial_state = ([], initial_state)"
    by (simp add: falsy_def)
  let ?dev4 = "\<lambda>p :: string. None :: string option"
  note t4 = startup_reconnect [of ?dev4 ?cfg2 initial_state "''/dev/ttyUSB0''" _ "''/dev/ttyACM0''"]
  have z: "length (serial_ports initial_state) = 0" "transmitterPort initial_state \<noteq> Some 0"
    by (simp_all add: initial_state_def)
  note c2 = conjunct2
  note receiver_opens = t4 [THEN c2, THEN c2, THEN c2, THEN c2, THEN c2, THEN c2, THEN conjunct1]
  note receiver_kept = t4 [THEN c2, THEN c2, THEN c2, THEN c2, THEN c2, THEN c2, THEN c2, THEN conjunct1]
  note transmitter_opens = t4 [THEN c2, THEN c2, THEN c2, THEN c2, THEN c2, THEN c2, THEN c2, THEN c2, THEN c2]
  from receiver_kept z have g: "receiverPort (snd (bootstrap ?dev4 ?cfg2 initial_state)) = Some 0"
    "isOpen (snd (bootstrap ?dev4 ?cfg2 initial_state)) 0"
    by simp_all
  from receiver_opens z
  have g': "sp_path (serial_ports (snd (reconnect_receiver ?dev4 ?cfg2 initial_state)) ! 0) = ''/dev/ttyUSB0''"
    by simp
  from transmitter_opens z
  have g'': "transmitterPort (snd (reconnect_transmitter ?dev4 ?cfg2 initial_state)) = Some 0"
    by simp
  from h r1 e1 a b c d e f g g' g'' show ?thesis by simp
qed

subsection \<open>Port registry\<close>

lemma is_usb_serial_sublist:
  "is_usb_serial port = (sublist ''ttyUSB'' (pi_path port) \<or> sublist ''ttyACM'' (pi_path port))"
  by (simp add: is_usb_serial_def includes_sublist)

lemma onboard_not_usb_serial:
  assumes "set n \<subseteq> set ''0123456789''"
  shows "\<not> is_usb_serial \<lparr>pi_path = ''/dev/ttyS'' @ n, pi_manufacturer = m\<rparr>"
proof
  assume "is_usb_serial \<lparr>pi_path = ''/dev/ttyS'' @ n, pi_manufacturer = m\<rparr>"
  then consider "includes_str (''/dev/ttyS'' @ n) ''ttyUSB''" | "includes_str (''/dev/ttyS'' @ n) ''ttyACM''"
    by (auto simp: is_usb_serial_def)
  then show False
  proof cases
    case 1
    from includes_chars [OF 1] have "CHR ''B'' \<in> set (''/dev/ttyS'' @ n)" by simp
    with assms show False by auto
  next
    case 2
    from includes_chars [OF 2] have "CHR ''A'' \<in> set (''/dev/ttyS'' @ n)" by simp
    with assms show False by auto
  qed
qed

lemma manufacturer_or_unknown_nonempty: "manufacturer_or_unknown m \<noteq> []"
  by (simp add: manufacturer_or_unknown_def split: option.splits)

text \<open>
  C9. \<open>listPorts\<close> returns, in enumeration order, the descriptors of exactly the enumerated
  devices whose path contains \<open>ttyUSB\<close> or \<open>ttyACM\<close>; an onboard port \<open>/dev/ttyS<digits>\<close>
  is left out; an empty enumeration gives the empty list, not an error; and a failure of the
  enumeration is handed to the caller.
\<close>

theorem listPorts_usb_only:
  "listPorts (Inr ports) =
     Inr (map describe_port
           (filter (\<lambda>p. sublist ''ttyUSB'' (pi_path p) \<or> sublist ''ttyACM'' (pi_path p)) ports))
   \<and> listPorts (Inr []) = Inr []
   \<and> listPorts (Inl err) = Inl err
   \<and> (set n \<subseteq> set ''0123456789'' \<longrightarrow>
        listPorts (Inr (pre @ [\<lparr>pi_path = ''/dev/ttyS'' @ n, pi_manufacturer = m\<rparr>] @ post))
          = listPorts (Inr (pre @ post)))"
proof -
  have "filter is_usb_serial ports =
          filter (\<lambda>p. sublist ''ttyUSB'' (pi_path p) \<or> sublist ''ttyACM'' (pi_path p)) ports"
    by (rule filter_cong) (simp_all add: is_usb_serial_sublist)
  then have a: "listPorts (Inr ports) =
     Inr (map describe_port
           (filter (\<lambda>p. sublist ''ttyUSB'' (pi_path p) \<or> sublist ''ttyACM'' (pi_path p)) ports))"
    by (simp add: listPorts_def)
  have b: "listPorts (Inr []) = Inr []" and c: "listPorts (Inl err) = Inl err"
    by (simp_all add: listPorts_def)
  have d: "listPorts (Inr (pre @ [\<lparr>pi_path = ''/dev/ttyS'' @ n, pi_manufacturer = m\<rparr>] @ post))
          = listPorts (Inr (pre @ post))" if "set n \<subseteq> set ''0123456789''"
    using onboard_not_usb_serial [OF that, of m] by (simp add: listPorts_def)
  from a b c d show ?thesis by blast
qed

theorem listPorts_usb_only_witness:
  "set ''0'' \<subseteq> set ''0123456789''
   \<and> listPorts (Inr [\<lparr>pi_path = ''/dev/ttyS0'', pi_manufacturer = Some ''onboard''\<rparr>,
                     \<lparr>pi_path = ''/dev/ttyUSB0'', pi_manufacturer = Some ''FTDI''\<rparr>,
                     \<lparr>pi_path = ''/dev/ttyACM0'', pi_manufacturer = None\<rparr>])
       = Inr [\<lparr>path = ''/dev/ttyUSB0'', manufacturer = ''FTDI''\<rparr>,
              \<lparr>path = ''/dev/ttyACM0'', manufacturer = ''Unknown''\<rparr>]"
proof -
  have h: "set ''0'' \<subseteq> set ''0123456789''" by simp
  have "listPorts (Inr ([] @ [\<lparr>pi_path = ''/dev/ttyS'' @ ''0'', pi_manufacturer = Some ''onboard''\<rparr>]
                         @ [\<lparr>pi_path = ''/dev/ttyUSB0'', pi_manufacturer = Some ''FTDI''\<rparr>,
                            \<lparr>pi_path = ''/dev/ttyACM0'', pi_manufacturer = None\<rparr>]))
        = listPorts (Inr ([] @ [\<lparr>pi_path = ''/dev/ttyUSB0'', pi_manufacturer = Some ''FTDI''\<rparr>,
                                \<lparr>pi_path = ''/dev/ttyACM0'', pi_manufacturer = None\<rparr>]))"
    using listPorts_usb_only [of _ _ "''0''" "[]" "Some ''onboard''"] h by blast
  then show ?thesis
    by (simp add: listPorts_def is_usb_serial_def describe_port_def manufacturer_or_unknown_def)
qed

text \<open>
  C10. Every descriptor returned by \<open>listPorts\<close> carries the path of the device it was made
  from, unchanged; where the system reported no manufacturer the descriptor says
  \<open>Unknown\<close>, a reported non-empty manufacturer is kept, and so no returned descriptor has
  an empty manufacturer.
\<close>

theorem listPorts_manufacturer_default:
  assumes "listPorts (Inr ports) = Inr ds"
  shows "length ds = length (filter is_usb_serial ports)
         \<and> (\<forall>i<length ds.
               path (ds ! i) = pi_path (filter is_usb_serial ports ! i)
               \<and> (pi_manufacturer (filter is_usb_serial ports ! i) = None
                    \<longrightarrow> manufacturer (ds ! i) = ''Unknown'')
               \<and> (\<forall>v. pi_manufacturer (filter is_usb_serial ports ! i) = Some v \<and> v \<noteq> []
                    \<longrightarrow> manufacturer (ds ! i) = v))
         \<and> (\<forall>d\<in>set ds. manufacturer d \<noteq> [])"
proof -
  from assms have ds: "ds = map describe_port (filter is_usb_serial ports)"
    by (simp add: listPorts_def)
  have "manufacturer d \<noteq> []" if "d \<in> set ds" for d
    using that by (auto simp: ds describe_port_def manufacturer_or_unknown_nonempty)
  moreover have "length ds = length (filter is_usb_serial ports)"
    by (simp add: ds)
  moreover have "path (ds ! i) = pi_path (filter is_usb_serial ports ! i)
       \<and> (pi_manufacturer (filter is_usb_serial ports ! i) = None \<longrightarrow> manufacturer (ds ! i) = ''Unknown'')
       \<and> (\<forall>v. pi_manufacturer (filter is_usb_serial ports ! i) = Some v \<and> v \<noteq> []
                    \<longrightarrow> manufacturer (ds ! i) = v)"
    if "i < length ds" for i
    using that by (simp add: ds describe_port_def manufacturer_or_unknown_def)
  ultimately show ?thesis by blast
qed

theorem listPorts_manufacturer_default_witness:
  "listPorts (Inr [\<lparr>pi_path = ''/dev/ttyACM0'', pi_manufacturer = None\<rparr>])
     = Inr [\<lparr>path = ''/dev/ttyACM0'', manufacturer = ''Unknown''\<rparr>]
   \<and> path ([\<lparr>path = ''/dev/ttyACM0'', manufacturer = ''Unknown''\<rparr>] ! 0) = ''/dev/ttyACM0''
   \<and> manufacturer \<lparr>path = ''/dev/ttyACM0'', manufacturer = ''Unknown''\<rparr> \<noteq> []"
proof -
  have h: "listPorts (Inr [\<lparr>pi_path = ''/dev/ttyACM0'', pi_manufacturer = None\<rparr>])
     = Inr [\<lparr>path = ''/dev/ttyACM0'', manufacturer = ''Unknown''\<rparr>]"
    by (simp add: listPorts_def is_usb_serial_def describe_port_def manufacturer_or_unknown_def)
  from listPorts_manufacturer_default [OF h] h show ?thesis by simp
qed

end
